theory Spec2Isabelle
  imports Main "HOL-Library.AList"
begin

section \<open>dmgr: a daemon supervisor (src/dmgr.py)\<close>

text \<open>
  A shallow embedding of \<^verbatim>\<open>DaemonManager\<close>. Python exceptions are values of
  \<open>exn\<close>; a function that can raise returns \<open>exn + 'a\<close> with \<open>Inl\<close> the exception.
  \<open>SystemExit n\<close> is \<^verbatim>\<open>sys.exit(n)\<close>, the program's own way to end; every other
  constructor is an exception that no handler of the program catches, so it ends the
  process with a traceback. Exceptions that the program does catch
  (\<^verbatim>\<open>FileNotFoundError\<close> of \<^verbatim>\<open>Popen\<close>, \<^verbatim>\<open>NoSuchProcess\<close> in the two probes,
  \<^verbatim>\<open>queue.Empty\<close>) are results of the functions that catch them.
  Python dictionaries are association lists in insertion order
  (\<open>AList.update\<close> overwrites in place or appends, \<open>map_of\<close> looks up).
  Calls to the logger have no effect on control flow and are left out.
\<close>

subsection \<open>Python values\<close>

datatype exn =
    SystemExit int
  | NameError string
  | KeyError string
  | ValueError
  | AttributeError
  | FileNotFoundError
  | NoSuchProcess
  | TimeoutExpired
  | OSError
  | PermissionError
  | OverflowError

text \<open>
  The exit status of the process: the argument of \<^verbatim>\<open>sys.exit\<close>, and 1 when the
  interpreter ends on an uncaught exception.
\<close>

fun exit_status :: "exn \<Rightarrow> int" where
  "exit_status (SystemExit n) = n"
| "exit_status e = 1"

text \<open>\<^verbatim>\<open>s.split(c)\<close> for a one-character separator: never the empty list.\<close>

fun py_split :: "char \<Rightarrow> string \<Rightarrow> string list" where
  "py_split c [] = [[]]"
| "py_split c (x # xs) =
     (if x = c then [] # py_split c xs
      else (case py_split c xs of
              [] \<Rightarrow> [[x]]
            | w # ws \<Rightarrow> (x # w) # ws))"

definition digit_char :: "nat \<Rightarrow> char" where
  "digit_char d = char_of (48 + d)"

text \<open>\<^verbatim>\<open>str(n)\<close> for a natural number: its decimal digits.\<close>

function py_str :: "nat \<Rightarrow> string" where
  "py_str n = (if n < 10 then [digit_char n] else py_str (n div 10) @ [digit_char (n mod 10)])"
  by pat_completeness auto
termination
  by (relation "measure (\<lambda>n. n)") auto

declare py_str.simps [simp del]

definition is_upper :: "char \<Rightarrow> bool" where
  "is_upper c = (65 \<le> (of_char c :: nat) \<and> (of_char c :: nat) \<le> 90)"

text \<open>\<^verbatim>\<open>s.lower()\<close> on ASCII text.\<close>

definition lower :: "string \<Rightarrow> string" where
  "lower s = map (\<lambda>c. if is_upper c then char_of ((of_char c :: nat) + 32) else c) s"

definition is_space :: "char \<Rightarrow> bool" where
  "is_space c = ((of_char c :: nat) \<in> {9, 10, 11, 12, 13, 28, 29, 30, 31, 32})"

text \<open>\<^verbatim>\<open>s.strip()\<close>: whitespace removed at both ends.\<close>

definition strip :: "string \<Rightarrow> string" where
  "strip s = rev (dropWhile is_space (rev (dropWhile is_space s)))"

definition is_digit :: "char \<Rightarrow> bool" where
  "is_digit c = (48 \<le> (of_char c :: nat) \<and> (of_char c :: nat) \<le> 57)"

text \<open>
  The digits of a decimal literal as \<^verbatim>\<open>int()\<close> reads them: at least one digit, single
  underscores only between digits. \<open>prev\<close> says that the character before was a digit.
\<close>

fun py_digits :: "nat \<Rightarrow> bool \<Rightarrow> string \<Rightarrow> nat option" where
  "py_digits acc prev [] = (if prev then Some acc else None)"
| "py_digits acc prev (c # cs) =
     (if is_digit c then py_digits (10 * acc + ((of_char c :: nat) - 48)) True cs
      else if c = CHR ''_'' \<and> prev then py_digits acc False cs
      else None)"

text \<open>\<^verbatim>\<open>int(s)\<close> on ASCII text: surrounding whitespace, an optional sign, digits.\<close>

definition py_int :: "string \<Rightarrow> exn + int" where
  "py_int s =
     (case strip s of
        [] \<Rightarrow> Inl ValueError
      | c # cs \<Rightarrow>
          (if c = CHR ''-'' then
             (case py_digits 0 False cs of None \<Rightarrow> Inl ValueError | Some n \<Rightarrow> Inr (- int n))
           else if c = CHR ''+'' then
             (case py_digits 0 False cs of None \<Rightarrow> Inl ValueError | Some n \<Rightarrow> Inr (int n))
           else
             (case py_digits 0 False (c # cs) of None \<Rightarrow> Inl ValueError | Some n \<Rightarrow> Inr (int n))))"

text \<open>A \<^verbatim>\<open>for\<close> loop whose body can raise: the first exception ends it.\<close>

fun for_each :: "('s \<Rightarrow> 'a \<Rightarrow> exn + 's) \<Rightarrow> 'a list \<Rightarrow> 's \<Rightarrow> exn + 's" where
  "for_each body [] s = Inr s"
| "for_each body (x # xs) s =
     (case body s x of
        Inl e \<Rightarrow> Inl e
      | Inr s' \<Rightarrow> for_each body xs s')"

subsection \<open>Signals\<close>

text \<open>
  A signal is its number: \<^verbatim>\<open>signal.Signals\<close> is an integer enumeration, equal and hashed
  as the number. The numbers are those of Linux.
\<close>

type_synonym signum = nat

definition SIGINT :: signum where "SIGINT = 2"
definition SIGKILL :: signum where "SIGKILL = 9"
definition SIGTERM :: signum where "SIGTERM = 15"
definition SIGSTOP :: signum where "SIGSTOP = 19"
definition SIGTSTP :: signum where "SIGTSTP = 20"

text \<open>
  An element of \<^verbatim>\<open>signal.valid_signals()\<close>: a member of the enumeration, with a name
  and a value, or a plain integer (a real-time signal without a name).
\<close>

datatype sigobj = Signals string signum | IntSig signum

text \<open>The table on Linux: 1 to 31 and 34 to 64, named but for 35 to 63.\<close>

definition valid_signals :: "sigobj list" where
  "valid_signals =
     [Signals ''SIGHUP'' 1, Signals ''SIGINT'' 2, Signals ''SIGQUIT'' 3, Signals ''SIGILL'' 4,
      Signals ''SIGTRAP'' 5, Signals ''SIGABRT'' 6, Signals ''SIGBUS'' 7, Signals ''SIGFPE'' 8,
      Signals ''SIGKILL'' 9, Signals ''SIGUSR1'' 10, Signals ''SIGSEGV'' 11,
      Signals ''SIGUSR2'' 12, Signals ''SIGPIPE'' 13, Signals ''SIGALRM'' 14,
      Signals ''SIGTERM'' 15, Signals ''SIGSTKFLT'' 16, Signals ''SIGCHLD'' 17,
      Signals ''SIGCONT'' 18, Signals ''SIGSTOP'' 19, Signals ''SIGTSTP'' 20,
      Signals ''SIGTTIN'' 21, Signals ''SIGTTOU'' 22, Signals ''SIGURG'' 23,
      Signals ''SIGXCPU'' 24, Signals ''SIGXFSZ'' 25, Signals ''SIGVTALRM'' 26,
      Signals ''SIGPROF'' 27, Signals ''SIGWINCH'' 28, Signals ''SIGIO'' 29,
      Signals ''SIGPWR'' 30, Signals ''SIGSYS'' 31, Signals ''SIGRTMIN'' 34]
     @ map IntSig [35 ..< 64] @ [Signals ''SIGRTMAX'' 64]"

text \<open>
  \<^verbatim>\<open>signal.signal(sig, handler)\<close>: the operating system refuses a handler for the two
  signals that cannot be caught (EINVAL, raised as OSError); otherwise the handler is
  installed. \<open>hs\<close> lists the signals that have the handler, in order of registration.
\<close>

definition signal_signal :: "signum \<Rightarrow> signum list \<Rightarrow> exn + signum list" where
  "signal_signal sig hs =
     (if sig = SIGKILL \<or> sig = SIGSTOP then Inl OSError else Inr (hs @ [sig]))"

subsection \<open>Configuration and the manager's fields\<close>

text \<open>
  The configuration dictionary. A key that may be missing is an option: \<open>None\<close> is
  \<^verbatim>\<open>"stopcmd" not in config\<close>. Waiting times are whole seconds.
\<close>

record config =
  config_processname :: string
  config_pidfile :: string
  config_startcmd :: string
  config_stopcmd :: "string option"
  config_waitstart :: int
  config_waitstop :: int
  config_signals :: "string option"
  config_passthrough :: "string option"

record daemon_manager =
  self_pidfile :: string
  self_processname :: string
  self_config :: config
  signal_commands :: "(signum \<times> string) list"
  exit_signals :: "signum list"
  signal_lookup :: "(string \<times> signum) list"
  passthroughmap :: "(signum \<times> signum) list"
  handlers :: "signum list"

text \<open>
  The assignments of \<^verbatim>\<open>__init__\<close> (lines 21 to 29). \<open>signal_lookup\<close> and
  \<open>passthroughmap\<close> are set by \<^verbatim>\<open>process_config\<close>; \<open>handlers\<close> is the state of the
  operating system: no handler is installed when the program starts.
\<close>

definition init_fields :: "config \<Rightarrow> daemon_manager" where
  "init_fields cfg =
     \<lparr> self_pidfile = config_pidfile cfg,
       self_processname = lower (config_processname cfg),
       self_config = cfg,
       signal_commands = [],
       exit_signals = [SIGINT, SIGTERM],
       signal_lookup = [],
       passthroughmap = [],
       handlers = [] \<rparr>"

subsection \<open>process_config (lines 205 to 276)\<close>

text \<open>Lines 208 to 213: a plain integer has no \<^verbatim>\<open>name\<close>, so only its digits are a key.\<close>

fun add_lookup :: "(string \<times> signum) list \<Rightarrow> sigobj \<Rightarrow> (string \<times> signum) list" where
  "add_lookup lk (Signals name v) = AList.update (py_str v) v (AList.update name v lk)"
| "add_lookup lk (IntSig v) = AList.update (py_str v) v lk"

definition build_lookup :: "sigobj list \<Rightarrow> (string \<times> signum) list" where
  "build_lookup vs = foldl add_lookup [] vs"

text \<open>
  Lines 219 to 232, the body of the loop over the passthrough entries. On line 226 the
  right operand of \<^verbatim>\<open>and\<close> reads a name \<^verbatim>\<open>signal_lookup\<close> that is bound neither in
  the method nor in the module (the field is \<^verbatim>\<open>self.signal_lookup\<close>): whenever the left
  operand holds, the test raises NameError. When the left operand fails, the else branch
  only logs, and line 230 indexes \<^verbatim>\<open>self.signal_lookup\<close> with the unknown name: KeyError.
  So no path reaches the assignment of line 227 or the end of the body.
\<close>

definition passthrough_entry :: "daemon_manager \<Rightarrow> string \<Rightarrow> exn + daemon_manager" where
  "passthrough_entry self x =
     (let y = py_split CHR ''='' x in
      if length y \<noteq> 1 \<and> length y \<noteq> 2 then Inl (SystemExit 1)
      else
        (let y = (if length y = 1 then y @ [y ! 0] else y);
             sig_in = y ! 0;
             sig_out = y ! 1
         in (case map_of (signal_lookup self) sig_in of
               Some s \<Rightarrow> Inl (NameError ''signal_lookup'')
             | None \<Rightarrow> Inl (KeyError sig_in))))"

text \<open>Lines 234 to 239: the stop command on SIGTERM and SIGINT, unless passed through.\<close>

definition stopcmd_entry :: "string \<Rightarrow> daemon_manager \<Rightarrow> signum \<Rightarrow> daemon_manager" where
  "stopcmd_entry cmd self sig =
     (if sig \<in> fst ` set (passthroughmap self) then self
      else self\<lparr>signal_commands := AList.update sig cmd (signal_commands self)\<rparr>)"

text \<open>
  Lines 244 to 266, the body of the loop over the signal entries. Line 254 reads the
  unbound name \<^verbatim>\<open>d\<close> once the left operand of \<^verbatim>\<open>and\<close> holds, line 258 the unbound
  name \<^verbatim>\<open>exit_signals\<close>: NameError for an entry on SIGTERM or on SIGINT.
\<close>

definition signals_entry :: "daemon_manager \<Rightarrow> string \<Rightarrow> exn + daemon_manager" where
  "signals_entry self x =
     (let y = py_split CHR ''='' x in
      if length y \<noteq> 2 then Inl (SystemExit 1)
      else
        (let sig = y ! 0; cmd = y ! 1 in
         (case map_of (signal_lookup self) sig of
            Some s \<Rightarrow>
              (if s = SIGKILL \<or> s = SIGTSTP then Inl (SystemExit 1)
               else if s = SIGTERM then Inl (NameError ''d'')
               else if s = SIGINT then Inl (NameError ''exit_signals'')
               else if s \<in> fst ` set (passthroughmap self) then Inr self
               else Inr (self\<lparr>signal_commands := AList.update s cmd (signal_commands self)\<rparr>))
          | None \<Rightarrow> Inl (SystemExit 1))))"

text \<open>The numbers of the table's members of the enumeration.\<close>

fun enum_members :: "sigobj list \<Rightarrow> signum list" where
  "enum_members [] = []"
| "enum_members (Signals name v # vs) = v # enum_members vs"
| "enum_members (IntSig v # vs) = enum_members vs"

text \<open>
  Whether the object behind a key or a value of the two maps has the attribute
  \<^verbatim>\<open>name\<close>. The object is \<^verbatim>\<open>signal.SIGTERM\<close> or \<^verbatim>\<open>signal.SIGINT\<close> (line 235), members
  of the enumeration, or a value of the lookup dictionary, that is an object of the
  table, which holds a number once: a member of the enumeration or a plain integer.
\<close>

definition has_name :: "sigobj list \<Rightarrow> signum \<Rightarrow> bool" where
  "has_name vs sig = (sig = SIGTERM \<or> sig = SIGINT \<or> sig \<in> set (enum_members vs))"

text \<open>
  Lines 270 and 271: \<^verbatim>\<open>signal.signal\<close> for a key of the command map, then the logger
  call, whose argument \<^verbatim>\<open>sig.name\<close> raises AttributeError for a plain integer.
\<close>

definition register :: "sigobj list \<Rightarrow> daemon_manager \<Rightarrow> signum \<Rightarrow> exn + daemon_manager" where
  "register vs self sig =
     (case signal_signal sig (handlers self) of
        Inl e \<Rightarrow> Inl e
      | Inr hs \<Rightarrow>
          (if has_name vs sig then Inr (self\<lparr>handlers := hs\<rparr>)
           else Inl AttributeError))"

text \<open>
  Lines 275 and 276: the same for an item of the passthrough map; the logger call reads
  \<^verbatim>\<open>sig_in.name\<close> and \<^verbatim>\<open>sig_out.name\<close>.
\<close>

definition register_passthrough ::
  "sigobj list \<Rightarrow> daemon_manager \<Rightarrow> signum \<times> signum \<Rightarrow> exn + daemon_manager" where
  "register_passthrough vs self item =
     (case signal_signal (fst item) (handlers self) of
        Inl e \<Rightarrow> Inl e
      | Inr hs \<Rightarrow>
          (if has_name vs (fst item) \<and> has_name vs (snd item) then Inr (self\<lparr>handlers := hs\<rparr>)
           else Inl AttributeError))"

text \<open>
  Lines 242 to 276. The two registration loops are indented under the test for the
  \<^verbatim>\<open>signals\<close> key: they run only when that key is present.
\<close>

definition signals_block :: "sigobj list \<Rightarrow> daemon_manager \<Rightarrow> exn + daemon_manager" where
  "signals_block vs self =
     (case config_signals (self_config self) of
        None \<Rightarrow> Inr self
      | Some s \<Rightarrow>
          (case for_each signals_entry (py_split CHR '';'' s) self of
             Inl e \<Rightarrow> Inl e
           | Inr self1 \<Rightarrow>
               (case for_each (register vs) (map fst (signal_commands self1)) self1 of
                  Inl e \<Rightarrow> Inl e
                | Inr self2 \<Rightarrow> for_each (register_passthrough vs) (passthroughmap self2) self2)))"

definition passthrough_block :: "daemon_manager \<Rightarrow> exn + daemon_manager" where
  "passthrough_block self =
     (case config_passthrough (self_config self) of
        None \<Rightarrow> Inr self
      | Some p \<Rightarrow> for_each passthrough_entry (py_split CHR '';'' p) self)"

definition stopcmd_block :: "daemon_manager \<Rightarrow> daemon_manager" where
  "stopcmd_block self =
     (case config_stopcmd (self_config self) of
        None \<Rightarrow> self
      | Some cmd \<Rightarrow> foldl (stopcmd_entry cmd) self [SIGTERM, SIGINT])"

definition process_config :: "sigobj list \<Rightarrow> daemon_manager \<Rightarrow> exn + daemon_manager" where
  "process_config vs self =
     (case passthrough_block (self\<lparr>signal_lookup := build_lookup vs, passthroughmap := []\<rparr>) of
        Inl e \<Rightarrow> Inl e
      | Inr self1 \<Rightarrow> signals_block vs (stopcmd_block self1))"

subsection \<open>The world outside\<close>

text \<open>
  What the supervisor observes and changes: regular text files by path, the process
  table by pid, standard input, the programs that \<^verbatim>\<open>Popen\<close> can start
  (\<open>executables\<close>) and those it finds but cannot start (\<open>unstartable\<close>), and the
  signals the supervisor has sent (\<open>sent\<close>, in order). A process handle of psutil is the pid:
  reuse of a pid is not modelled.
\<close>

datatype pstatus = STATUS_RUNNING | STATUS_SLEEPING | STATUS_ZOMBIE

record pinfo =
  pname :: string
  pstatus :: pstatus

record world =
  files :: "(string \<times> string) list"
  procs :: "(int \<times> pinfo) list"
  stdin :: string
  stdin_closed :: bool
  getpid :: int
  executables :: "string list"
  unstartable :: "string list"
  next_pid :: int
  sent :: "(int \<times> signum) list"

text \<open>
  Time is counted in half seconds from the first of January 1970, the period of
  \<^verbatim>\<open>time.sleep(0.5)\<close>, and passes only in a sleep or a wait. The environment \<open>tick now w\<close> is what everything else on the
  machine does to the world during the half second that starts at \<open>now\<close>.
\<close>

type_synonym env = "int \<Rightarrow> world \<Rightarrow> world"

text \<open>Lines 36 to 42. \<^verbatim>\<open>psutil.Process(None)\<close> is the calling process itself.\<close>

definition get_process :: "world \<Rightarrow> int option \<Rightarrow> exn + int option" where
  "get_process w pid =
     (case pid of
        None \<Rightarrow> Inr (Some (getpid w))
      | Some p \<Rightarrow>
          (if p < 0 then Inl ValueError
           else if p \<in> fst ` set (procs w) then Inr (Some p)
           else Inr None))"

text \<open>Lines 46 to 48, for a file name that is a string.\<close>

definition file_exists :: "world \<Rightarrow> string \<Rightarrow> bool" where
  "file_exists w filename = (filename \<in> fst ` set (files w))"

text \<open>
  Lines 52 to 61. The \<^verbatim>\<open>with\<close> statement closes what it read: after one read of
  \<^verbatim>\<open>-\<close>, standard input is closed and the next read raises ValueError.
\<close>

definition load_text :: "world \<Rightarrow> string \<Rightarrow> (exn + string) \<times> world" where
  "load_text w filename =
     (if filename = ''-'' then
        (if stdin_closed w then (Inl ValueError, w)
         else (Inr (stdin w), w\<lparr>stdin_closed := True\<rparr>))
      else
        (case map_of (files w) filename of
           None \<Rightarrow> (Inl FileNotFoundError, w)
         | Some text \<Rightarrow> (Inr text, w)))"

text \<open>The expression \<^verbatim>\<open>int(self.load_text(f).strip())\<close> of lines 87, 115, 144, 187, 340.\<close>

definition read_pid :: "world \<Rightarrow> string \<Rightarrow> (exn + int) \<times> world" where
  "read_pid w filename =
     (case load_text w filename of
        (Inl e, w') \<Rightarrow> (Inl e, w')
      | (Inr text, w') \<Rightarrow> (py_int (strip text), w'))"

text \<open>
  Lines 65 to 72. A handle that is \<^verbatim>\<open>None\<close> has no method \<^verbatim>\<open>is_running\<close>:
  AttributeError, which the handler for \<^verbatim>\<open>psutil.NoSuchProcess\<close> does not catch.
\<close>

definition is_proc_running :: "world \<Rightarrow> int option \<Rightarrow> exn + bool" where
  "is_proc_running w proc =
     (case proc of
        None \<Rightarrow> Inl AttributeError
      | Some p \<Rightarrow>
          (case map_of (procs w) p of
             None \<Rightarrow> Inr False
           | Some i \<Rightarrow> Inr (pstatus i \<noteq> STATUS_ZOMBIE)))"

text \<open>
  Lines 76 to 82: \<^verbatim>\<open>Popen\<close> on the comma-separated words. Line 80 catches
  FileNotFoundError only: a program that is not found gives \<^verbatim>\<open>None\<close>, while the
  PermissionError for a program that is found and cannot be started, or for the empty
  name, goes on to the caller. Otherwise the child is a new running process.
\<close>

definition start_subprocess :: "world \<Rightarrow> string \<Rightarrow> (exn + int option) \<times> world" where
  "start_subprocess w command_string =
     (case py_split CHR '','' command_string of
        [] \<Rightarrow> (Inr None, w)
      | prog # args \<Rightarrow>
          (if prog = [] \<or> prog \<in> set (unstartable w) then (Inl PermissionError, w)
           else if prog \<in> set (executables w) then
             (Inr (Some (next_pid w)),
              w\<lparr>procs := AList.update (next_pid w) \<lparr>pname = prog, pstatus = STATUS_RUNNING\<rparr> (procs w),
                next_pid := next_pid w + 1\<rparr>)
           else (Inr None, w)))"

text \<open>A child has exited when it is a zombie or gone from the table.\<close>

definition child_exited :: "world \<Rightarrow> int \<Rightarrow> bool" where
  "child_exited w child =
     (case map_of (procs w) child of
        None \<Rightarrow> True
      | Some i \<Rightarrow> pstatus i = STATUS_ZOMBIE)"

text \<open>
  \<^verbatim>\<open>Popen.poll()\<close>: whether a return code is there (\<^verbatim>\<open>r is not None\<close>); an exited
  child is reaped and leaves the table. On \<^verbatim>\<open>None\<close> in place of the \<^verbatim>\<open>Popen\<close> object
  the call raises AttributeError.
\<close>

definition popen_poll :: "world \<Rightarrow> int option \<Rightarrow> (exn + bool) \<times> world" where
  "popen_poll w cmd_subproc =
     (case cmd_subproc of
        None \<Rightarrow> (Inl AttributeError, w)
      | Some child \<Rightarrow>
          (if child_exited w child then (Inr True, w\<lparr>procs := AList.delete child (procs w)\<rparr>)
           else (Inr False, w)))"

text \<open>
  \<^verbatim>\<open>Popen.terminate()\<close> and \<^verbatim>\<open>Popen.kill()\<close>: the call polls first, so an exited
  child is reaped; a child that has not exited gets the signal.
\<close>

definition popen_send_signal :: "world \<Rightarrow> int \<Rightarrow> signum \<Rightarrow> world" where
  "popen_send_signal w child sig =
     (if child_exited w child then w\<lparr>procs := AList.delete child (procs w)\<rparr>
      else w\<lparr>sent := sent w @ [(child, sig)]\<rparr>)"

text \<open>
  \<^verbatim>\<open>Popen.wait(timeout=...)\<close> for \<open>n\<close> more half seconds: returns once the child has
  exited, raises \<^verbatim>\<open>subprocess.TimeoutExpired\<close> when the time is over.
\<close>

fun popen_wait :: "env \<Rightarrow> nat \<Rightarrow> int \<Rightarrow> int \<Rightarrow> world \<Rightarrow> (exn + unit) \<times> int \<times> world" where
  "popen_wait tick 0 child now w =
     (if child_exited w child then (Inr (), now, w\<lparr>procs := AList.delete child (procs w)\<rparr>)
      else (Inl TimeoutExpired, now, w))"
| "popen_wait tick (Suc n) child now w =
     (if child_exited w child then (Inr (), now, w\<lparr>procs := AList.delete child (procs w)\<rparr>)
      else popen_wait tick n child (now + 1) (tick now w))"

text \<open>\<^verbatim>\<open>psutil.Process.send_signal\<close> (lines 309 and 371).\<close>

definition send_signal :: "world \<Rightarrow> int option \<Rightarrow> signum \<Rightarrow> (exn + unit) \<times> world" where
  "send_signal w proc sig =
     (case proc of
        None \<Rightarrow> (Inl AttributeError, w)
      | Some p \<Rightarrow>
          (if p \<in> fst ` set (procs w) then (Inr (), w\<lparr>sent := sent w @ [(p, sig)]\<rparr>)
           else (Inl NoSuchProcess, w)))"

text \<open>\<^verbatim>\<open>psutil.Process.name\<close> (line 197).\<close>

definition proc_name :: "world \<Rightarrow> int \<Rightarrow> exn + string" where
  "proc_name w p =
     (case map_of (procs w) p of
        None \<Rightarrow> Inl NoSuchProcess
      | Some i \<Rightarrow> Inr (pname i))"

text \<open>\<^verbatim>\<open>os.remove\<close> (line 201).\<close>

definition os_remove :: "world \<Rightarrow> string \<Rightarrow> (exn + unit) \<times> world" where
  "os_remove w filename =
     (if file_exists w filename then (Inr (), w\<lparr>files := AList.delete filename (files w)\<rparr>)
      else (Inl FileNotFoundError, w))"

subsection \<open>The startup guard (lines 185 to 202)\<close>

definition get_pid_info :: "daemon_manager \<Rightarrow> world \<Rightarrow> (exn + int option) \<times> world" where
  "get_pid_info self w =
     (if file_exists w (self_pidfile self) then
        (case read_pid w (self_pidfile self) of
           (Inl e, w') \<Rightarrow> (Inl e, w')
         | (Inr pid, w') \<Rightarrow> (get_process w' (Some pid), w'))
      else (Inr None, w))"

definition check_if_already_running :: "daemon_manager \<Rightarrow> world \<Rightarrow> (exn + unit) \<times> world" where
  "check_if_already_running self w =
     (if file_exists w (self_pidfile self) then
        (case get_pid_info self w of
           (Inl e, w') \<Rightarrow> (Inl e, w')
         | (Inr None, w') \<Rightarrow> os_remove w' (self_pidfile self)
         | (Inr (Some p), w') \<Rightarrow>
             (case proc_name w' p of
                Inl e \<Rightarrow> (Inl e, w')
              | Inr name \<Rightarrow>
                  (if lower name = self_processname self then (Inl (SystemExit 1), w')
                   else os_remove w' (self_pidfile self))))
      else (Inr (), w))"

text \<open>\<^verbatim>\<open>__init__\<close> (lines 20 to 32): the guard, then the configuration.\<close>

definition DaemonManager :: "sigobj list \<Rightarrow> config \<Rightarrow> world \<Rightarrow> (exn + daemon_manager) \<times> world" where
  "DaemonManager vs cfg w =
     (case check_if_already_running (init_fields cfg) w of
        (Inl e, w') \<Rightarrow> (Inl e, w')
      | (Inr u, w') \<Rightarrow> (process_config vs (init_fields cfg), w'))"

subsection \<open>run_cmd_and_wait (lines 85 to 173)\<close>

datatype expected_outcome = PROCESS_RUNNING | PROCESS_STOPPED

text \<open>Lines 86 to 89: the pid in the file when the call starts, if there is a file.\<close>

definition read_old_pid :: "world \<Rightarrow> string \<Rightarrow> (exn + int option) \<times> world" where
  "read_old_pid w pidfile =
     (if file_exists w pidfile then
        (case read_pid w pidfile of
           (Inl e, w') \<Rightarrow> (Inl e, w')
         | (Inr pid, w') \<Rightarrow> (Inr (Some pid), w'))
      else (Inr None, w))"

text \<open>
  Lines 98 to 105. The result is \<open>None\<close> when the program was not found (line 101
  returns False), otherwise the pair of \<^verbatim>\<open>cmd_subproc\<close> (the child's pid) and
  \<^verbatim>\<open>cmd_proc\<close> (its psutil handle), both \<open>None\<close> when there is no command.
\<close>

definition launch :: "world \<Rightarrow> string option \<Rightarrow> (exn + (int option \<times> int option) option) \<times> world" where
  "launch w cmd =
     (case cmd of
        None \<Rightarrow> (Inr (Some (None, None)), w)
      | Some c \<Rightarrow>
          (case start_subprocess w c of
             (Inl e, w') \<Rightarrow> (Inl e, w')
           | (Inr None, w') \<Rightarrow> (Inr None, w')
           | (Inr (Some child), w') \<Rightarrow>
               (case get_process w' (Some child) of
                  Inl e \<Rightarrow> (Inl e, w')
                | Inr cmd_proc \<Rightarrow> (Inr (Some (Some child, cmd_proc)), w'))))"

text \<open>Lines 126 to 130. The flag says that the loop is left by \<^verbatim>\<open>break\<close>.\<close>

definition look_for_new :: "world \<Rightarrow> int option \<Rightarrow> (exn + bool \<times> int option) \<times> world" where
  "look_for_new w new_pid =
     (case new_pid of
        None \<Rightarrow> (Inr (False, new_pid), w)
      | Some n \<Rightarrow>
          (case get_process w new_pid of
             Inl e \<Rightarrow> (Inl e, w)
           | Inr None \<Rightarrow> (Inr (False, new_pid), w)
           | Inr (Some proc) \<Rightarrow> (Inr (True, new_pid), w)))"

text \<open>Lines 114 to 117: the value of \<^verbatim>\<open>new_pid\<close> afterwards; \<open>r\<close> is \<^verbatim>\<open>r is not None\<close>.\<close>

definition look_for_pid :: "world \<Rightarrow> string \<Rightarrow> int option \<Rightarrow> bool \<Rightarrow> int option \<Rightarrow> (exn + int option) \<times> world" where
  "look_for_pid w pidfile old_pid r new_pid =
     (if new_pid = None \<and> file_exists w pidfile then
        (case read_pid w pidfile of
           (Inl e, w') \<Rightarrow> (Inl e, w')
         | (Inr pid, w') \<Rightarrow> (Inr (if Some pid \<noteq> old_pid \<or> r then Some pid else new_pid), w'))
      else (Inr new_pid, w))"

text \<open>Lines 110 to 130: one pass through the body of the first loop, up to the sleep.\<close>

definition detect_step ::
  "expected_outcome \<Rightarrow> string \<Rightarrow> int option \<Rightarrow> int option \<Rightarrow> int option \<Rightarrow> world
     \<Rightarrow> (exn + bool \<times> int option) \<times> world" where
  "detect_step expected_outcome pidfile old_pid cmd_subproc new_pid w =
     (case expected_outcome of
        PROCESS_RUNNING \<Rightarrow>
          (case popen_poll w cmd_subproc of
             (Inl e, w1) \<Rightarrow> (Inl e, w1)
           | (Inr r, w1) \<Rightarrow>
               (case look_for_pid w1 pidfile old_pid r new_pid of
                  (Inl e, w2) \<Rightarrow> (Inl e, w2)
                | (Inr new_pid', w2) \<Rightarrow> look_for_new w2 new_pid'))
      | PROCESS_STOPPED \<Rightarrow>
          (case get_process w old_pid of
             Inl e \<Rightarrow> (Inl e, w)
           | Inr None \<Rightarrow> (Inr (True, new_pid), w)
           | Inr (Some proc) \<Rightarrow> look_for_new w new_pid))"

text \<open>
  Lines 108 to 132, the first loop. The result holds \<^verbatim>\<open>new_pid\<close>, the time and the
  world when the loop is left.
\<close>

function detect ::
  "env \<Rightarrow> expected_outcome \<Rightarrow> string \<Rightarrow> int option \<Rightarrow> int option \<Rightarrow> int \<Rightarrow> int option \<Rightarrow> int \<Rightarrow> world
     \<Rightarrow> (exn + int option) \<times> int \<times> world" where
  "detect tick expected_outcome pidfile old_pid cmd_subproc dttimeout new_pid now w =
     (if now < dttimeout then
        (case detect_step expected_outcome pidfile old_pid cmd_subproc new_pid w of
           (Inl e, w') \<Rightarrow> (Inl e, now, w')
         | (Inr (True, new_pid'), w') \<Rightarrow> (Inr new_pid', now, w')
         | (Inr (False, new_pid'), w') \<Rightarrow>
             detect tick expected_outcome pidfile old_pid cmd_subproc dttimeout new_pid'
               (now + 1) (tick now w'))
      else (Inr new_pid, now, w))"
  by pat_completeness auto
termination
  by (relation "measure (\<lambda>(tick, eo, pidfile, old_pid, cmd_subproc, dttimeout, new_pid, now, w).
        nat (dttimeout - now))") auto

declare detect.simps [simp del]

text \<open>How the body of the second loop ends.\<close>

datatype ctl = Continue | Break | Return bool

text \<open>
  Lines 141 to 153: one pass through the body of the second loop, up to the sleep. Line
  144 reads the file with no test that it exists; line 146 looks up \<^verbatim>\<open>old_pid\<close>.
\<close>

definition stabilize_step ::
  "expected_outcome \<Rightarrow> string \<Rightarrow> int option \<Rightarrow> int option \<Rightarrow> int option \<Rightarrow> world
     \<Rightarrow> (exn + ctl \<times> int option) \<times> world" where
  "stabilize_step expected_outcome pidfile old_pid cmd_proc pid w =
     (if expected_outcome = PROCESS_RUNNING then
        (case (if pid = None then
                 (case read_pid w pidfile of
                    (Inl e, w') \<Rightarrow> (Inl e, w')
                  | (Inr p, w') \<Rightarrow> (Inr (Some p), w'))
               else (Inr pid, w)) of
           (Inl e, w1) \<Rightarrow> (Inl e, w1)
         | (Inr pid', w1) \<Rightarrow>
             (case get_process w1 old_pid of
                Inl e \<Rightarrow> (Inl e, w1)
              | Inr None \<Rightarrow> (Inr (Return False, pid'), w1)
              | Inr (Some proc) \<Rightarrow> (Inr (Continue, pid'), w1)))
      else
        (case is_proc_running w cmd_proc of
           Inl e \<Rightarrow> (Inl e, w)
         | Inr running \<Rightarrow> (Inr (if running then Continue else Break, pid), w)))"

text \<open>
  Lines 140 to 155, the second loop. The result is \<open>Some False\<close> when line 149
  returns, \<open>None\<close> when the loop ends by \<^verbatim>\<open>break\<close> or at the deadline.
\<close>

function stabilize ::
  "env \<Rightarrow> expected_outcome \<Rightarrow> string \<Rightarrow> int option \<Rightarrow> int option \<Rightarrow> int \<Rightarrow> int option \<Rightarrow> int \<Rightarrow> world
     \<Rightarrow> (exn + bool option) \<times> int \<times> world" where
  "stabilize tick expected_outcome pidfile old_pid cmd_proc dttimeout pid now w =
     (if now < dttimeout then
        (case stabilize_step expected_outcome pidfile old_pid cmd_proc pid w of
           (Inl e, w') \<Rightarrow> (Inl e, now, w')
         | (Inr (Return b, pid'), w') \<Rightarrow> (Inr (Some b), now, w')
         | (Inr (Break, pid'), w') \<Rightarrow> (Inr None, now, w')
         | (Inr (Continue, pid'), w') \<Rightarrow>
             stabilize tick expected_outcome pidfile old_pid cmd_proc dttimeout pid'
               (now + 1) (tick now w'))
      else (Inr None, now, w))"
  by pat_completeness auto
termination
  by (relation "measure (\<lambda>(tick, eo, pidfile, old_pid, cmd_proc, dttimeout, pid, now, w).
        nat (dttimeout - now))") auto

declare stabilize.simps [simp del]

text \<open>
  Lines 158 to 165: SIGTERM and a wait of 3 seconds (6 half seconds) for a command
  process that is running, then SIGKILL if it is running. The wait raises
  \<^verbatim>\<open>TimeoutExpired\<close> when the 3 seconds pass, and nothing catches it.
\<close>

definition cleanup :: "env \<Rightarrow> int option \<Rightarrow> int option \<Rightarrow> int \<Rightarrow> world \<Rightarrow> (exn + unit) \<times> int \<times> world" where
  "cleanup tick cmd_subproc cmd_proc now w =
     (case cmd_subproc of
        None \<Rightarrow> (Inr (), now, w)
      | Some child \<Rightarrow>
          (case is_proc_running w cmd_proc of
             Inl e \<Rightarrow> (Inl e, now, w)
           | Inr running \<Rightarrow>
               (case (if running then popen_wait tick 6 child now (popen_send_signal w child SIGTERM)
                      else (Inr (), now, w)) of
                  (Inl e, now1, w1) \<Rightarrow> (Inl e, now1, w1)
                | (Inr u, now1, w1) \<Rightarrow>
                    (case is_proc_running w1 cmd_proc of
                       Inl e \<Rightarrow> (Inl e, now1, w1)
                     | Inr running1 \<Rightarrow>
                         (Inr (), now1,
                          if running1 then popen_send_signal w1 child SIGKILL else w1)))))"

text \<open>Lines 168 to 173.\<close>

definition outcome :: "expected_outcome \<Rightarrow> int option \<Rightarrow> world \<Rightarrow> exn + bool" where
  "outcome expected_outcome old_pid w =
     (if expected_outcome = PROCESS_STOPPED then
        (case get_process w old_pid of
           Inl e \<Rightarrow> Inl e
         | Inr proc \<Rightarrow> Inr (proc = None))
      else Inr True)"

text \<open>Lines 107 to 173, from the first loop on. Line 136 returns before the cleanup.\<close>

definition transition ::
  "env \<Rightarrow> expected_outcome \<Rightarrow> string \<Rightarrow> int option \<Rightarrow> int option \<Rightarrow> int option \<Rightarrow> int \<Rightarrow> int \<Rightarrow> world
     \<Rightarrow> (exn + bool) \<times> int \<times> world" where
  "transition tick expected_outcome pidfile old_pid cmd_subproc cmd_proc dttimeout now w =
     (case detect tick expected_outcome pidfile old_pid cmd_subproc dttimeout None now w of
        (Inl e, now1, w1) \<Rightarrow> (Inl e, now1, w1)
      | (Inr new_pid, now1, w1) \<Rightarrow>
          (if now1 \<ge> dttimeout then (Inr False, now1, w1)
           else
             (case stabilize tick expected_outcome pidfile old_pid cmd_proc dttimeout None now1 w1 of
                (Inl e, now2, w2) \<Rightarrow> (Inl e, now2, w2)
              | (Inr (Some b), now2, w2) \<Rightarrow> (Inr b, now2, w2)
              | (Inr None, now2, w2) \<Rightarrow>
                  (case cleanup tick cmd_subproc cmd_proc now2 w2 of
                     (Inl e, now3, w3) \<Rightarrow> (Inl e, now3, w3)
                   | (Inr u, now3, w3) \<Rightarrow> (outcome expected_outcome old_pid w3, now3, w3)))))"

text \<open>
  Line 91. \<^verbatim>\<open>timedelta(seconds=waittime)\<close> holds at most 999999999 days either way, and
  a \<^verbatim>\<open>datetime\<close> lies in the years 1 to 9999: from 62135596800 seconds before 1970 to
  253402300800 seconds after it, the end not included. Outside, line 91 raises
  OverflowError. \<open>waittime\<close> is in seconds, so the deadline is \<open>2 * waittime\<close> half
  seconds from \<open>now\<close>.
\<close>

definition timedelta_ok :: "int \<Rightarrow> bool" where
  "timedelta_ok seconds = (- 999999999 \<le> seconds div 86400 \<and> seconds div 86400 \<le> 999999999)"

definition datetime_ok :: "int \<Rightarrow> bool" where
  "datetime_ok t = (- 124271193600 \<le> t \<and> t < 506804601600)"

definition deadline :: "int \<Rightarrow> int \<Rightarrow> exn + int" where
  "deadline now waittime =
     (if timedelta_ok waittime \<and> datetime_ok (now + 2 * waittime) then Inr (now + 2 * waittime)
      else Inl OverflowError)"

text \<open>The whole function.\<close>

definition run_cmd_and_wait ::
  "env \<Rightarrow> string option \<Rightarrow> string \<Rightarrow> int \<Rightarrow> expected_outcome \<Rightarrow> int \<Rightarrow> world
     \<Rightarrow> (exn + bool) \<times> int \<times> world" where
  "run_cmd_and_wait tick cmd pidfile waittime expected_outcome now w =
     (case read_old_pid w pidfile of
        (Inl e, w1) \<Rightarrow> (Inl e, now, w1)
      | (Inr old_pid, w1) \<Rightarrow>
          (case deadline now waittime of
             Inl e \<Rightarrow> (Inl e, now, w1)
           | Inr dttimeout \<Rightarrow>
               (case launch w1 cmd of
                  (Inl e, w2) \<Rightarrow> (Inl e, now, w2)
                | (Inr None, w2) \<Rightarrow> (Inr False, now, w2)
                | (Inr (Some (cmd_subproc, cmd_proc)), w2) \<Rightarrow>
                    transition tick expected_outcome pidfile old_pid cmd_subproc cmd_proc
                      dttimeout now w2)))"

subsection \<open>run (lines 278 to 376)\<close>

text \<open>
  What \<^verbatim>\<open>signal_queue.get(block=True, timeout=1)\<close> gives in one pass of the monitoring
  loop: a queued signal, \<^verbatim>\<open>queue.Empty\<close> after one second, or a \<^verbatim>\<open>KeyboardInterrupt\<close>
  (SIGINT with Python's default handler) raised while waiting.
\<close>

datatype qevent = Got signum | Empty | KeyboardInterrupt

text \<open>
  Lines 306 to 314: the effective signal and the command to run. A passed-through signal
  goes to \<^verbatim>\<open>main_proc\<close>, which is \<^verbatim>\<open>None\<close> until the first watchdog check.
\<close>

definition resolve_signal ::
  "daemon_manager \<Rightarrow> signum \<Rightarrow> int option \<Rightarrow> world \<Rightarrow> (exn + signum \<times> string option) \<times> world" where
  "resolve_signal self sig main_proc w =
     (case map_of (passthroughmap self) sig of
        Some effective_signal \<Rightarrow>
          (case send_signal w main_proc effective_signal of
             (Inl e, w') \<Rightarrow> (Inl e, w')
           | (Inr u, w') \<Rightarrow> (Inr (effective_signal, None), w'))
      | None \<Rightarrow>
          (case map_of (signal_commands self) sig of
             None \<Rightarrow> (Inl (KeyError (py_str sig)), w)
           | Some excmd \<Rightarrow> (Inr (sig, Some excmd), w)))"

text \<open>
  Lines 302 to 336 and the handler of line 350, for one queue event. \<open>Inl stopcmd\<close>: the
  loop is left for the exit procedure with this stop command. \<open>Inr main_pid\<close>: the pass
  goes on to the watchdog with this value of \<^verbatim>\<open>main_pid\<close>.
\<close>

definition try_block ::
  "env \<Rightarrow> daemon_manager \<Rightarrow> qevent \<Rightarrow> int option \<Rightarrow> int option \<Rightarrow> int \<Rightarrow> world
     \<Rightarrow> (exn + (string option + int option)) \<times> int \<times> world" where
  "try_block tick self ev main_pid main_proc now w =
     (case ev of
        KeyboardInterrupt \<Rightarrow> (Inr (Inl (config_stopcmd (self_config self))), now, w)
      | Empty \<Rightarrow> (Inr (Inr main_pid), now + 2, tick (now + 1) (tick now w))
      | Got sig \<Rightarrow>
          (case resolve_signal self sig main_proc w of
             (Inl e, w1) \<Rightarrow> (Inl e, now, w1)
           | (Inr (effective_signal, excmd), w1) \<Rightarrow>
               (if effective_signal \<in> set (exit_signals self) then (Inr (Inl excmd), now, w1)
                else
                  (case excmd of
                     None \<Rightarrow> (Inr (Inr None), now, w1)
                   | Some c \<Rightarrow>
                       (case run_cmd_and_wait tick excmd (self_pidfile self)
                               (config_waitstart (self_config self)) PROCESS_RUNNING now w1 of
                          (Inl e, now2, w2) \<Rightarrow> (Inl e, now2, w2)
                        | (Inr status, now2, w2) \<Rightarrow>
                            (if status then (Inr (Inr None), now2, w2)
                             else (Inl (SystemExit 1), now2, w2)))))))"

text \<open>
  Lines 339 to 348. Line 340 reads the file with no test that it exists. A pid that
  names no process leaves \<^verbatim>\<open>main_proc\<close> at \<^verbatim>\<open>None\<close>, on which line 346 raises.
\<close>

definition watchdog ::
  "daemon_manager \<Rightarrow> int option \<Rightarrow> int option \<Rightarrow> world \<Rightarrow> (exn + int option \<times> int option) \<times> world" where
  "watchdog self main_pid main_proc w =
     (case (if main_pid = None then
              (case read_pid w (self_pidfile self) of
                 (Inl e, w') \<Rightarrow> (Inl e, w')
               | (Inr p, w') \<Rightarrow> (Inr (Some p, None), w'))
            else (Inr (main_pid, main_proc), w)) of
        (Inl e, w1) \<Rightarrow> (Inl e, w1)
      | (Inr (main_pid1, main_proc1), w1) \<Rightarrow>
          (case (if main_proc1 = None then get_process w1 main_pid1 else Inr main_proc1) of
             Inl e \<Rightarrow> (Inl e, w1)
           | Inr main_proc2 \<Rightarrow>
               (case is_proc_running w1 main_proc2 of
                  Inl e \<Rightarrow> (Inl e, w1)
                | Inr running \<Rightarrow>
                    (if running then (Inr (main_pid1, main_proc2), w1)
                     else (Inl (SystemExit 1), w1)))))"

text \<open>
  Lines 301 to 348, the monitoring loop over the queue events of a finite prefix of the
  run. \<open>None\<close>: the events are over and the loop is still running. \<open>Some\<close>: the loop
  is left with this stop command and this \<^verbatim>\<open>main_proc\<close>.
\<close>

fun monitor ::
  "env \<Rightarrow> daemon_manager \<Rightarrow> qevent list \<Rightarrow> int option \<Rightarrow> int option \<Rightarrow> int \<Rightarrow> world
     \<Rightarrow> (exn + (string option \<times> int option) option) \<times> int \<times> world" where
  "monitor tick self [] main_pid main_proc now w = (Inr None, now, w)"
| "monitor tick self (ev # evs) main_pid main_proc now w =
     (case try_block tick self ev main_pid main_proc now w of
        (Inl e, now1, w1) \<Rightarrow> (Inl e, now1, w1)
      | (Inr (Inl stopcmd), now1, w1) \<Rightarrow> (Inr (Some (stopcmd, main_proc)), now1, w1)
      | (Inr (Inr main_pid1), now1, w1) \<Rightarrow>
          (case watchdog self main_pid1 main_proc w1 of
             (Inl e, w2) \<Rightarrow> (Inl e, now1, w2)
           | (Inr (main_pid2, main_proc2), w2) \<Rightarrow>
               monitor tick self evs main_pid2 main_proc2 now1 w2))"

datatype run_result = Done | Monitoring

text \<open>Lines 361 to 376.\<close>

definition stop_phase ::
  "env \<Rightarrow> daemon_manager \<Rightarrow> string option \<Rightarrow> int option \<Rightarrow> int \<Rightarrow> world
     \<Rightarrow> (exn + run_result) \<times> int \<times> world" where
  "stop_phase tick self stopcmd main_proc now w =
     (case run_cmd_and_wait tick stopcmd (self_pidfile self)
             (config_waitstop (self_config self)) PROCESS_STOPPED now w of
        (Inl e, now1, w1) \<Rightarrow> (Inl e, now1, w1)
      | (Inr status, now1, w1) \<Rightarrow>
          (if status then (Inr Done, now1, w1)
           else
             (case main_proc of
                None \<Rightarrow> (Inl (SystemExit 1), now1, w1)
              | Some p \<Rightarrow>
                  (case send_signal w1 main_proc SIGTERM of
                     (Inl e, w2) \<Rightarrow> (Inl e, now1, w2)
                   | (Inr u, w2) \<Rightarrow> (Inl (SystemExit 1), now1, w2)))))"

definition run ::
  "env \<Rightarrow> daemon_manager \<Rightarrow> qevent list \<Rightarrow> int \<Rightarrow> world \<Rightarrow> (exn + run_result) \<times> int \<times> world" where
  "run tick self events now w =
     (case run_cmd_and_wait tick (Some (config_startcmd (self_config self))) (self_pidfile self)
             (config_waitstart (self_config self)) PROCESS_RUNNING now w of
        (Inl e, now1, w1) \<Rightarrow> (Inl e, now1, w1)
      | (Inr status, now1, w1) \<Rightarrow>
          (if status then
             (case monitor tick self events None None now1 w1 of
                (Inl e, now2, w2) \<Rightarrow> (Inl e, now2, w2)
              | (Inr None, now2, w2) \<Rightarrow> (Inr Monitoring, now2, w2)
              | (Inr (Some (stopcmd, main_proc)), now2, w2) \<Rightarrow>
                  stop_phase tick self stopcmd main_proc now2 w2)
           else (Inl (SystemExit 1), now1, w1)))"

text \<open>
  Lines 429 and 430 of \<^verbatim>\<open>main\<close>, after the options are read: the constructor, then
  \<^verbatim>\<open>run\<close>. An exception of the constructor ends the process before \<^verbatim>\<open>run\<close> is called.
\<close>

definition main ::
  "sigobj list \<Rightarrow> env \<Rightarrow> config \<Rightarrow> qevent list \<Rightarrow> int \<Rightarrow> world
     \<Rightarrow> (exn + run_result) \<times> int \<times> world" where
  "main vs tick cfg events now w =
     (case DaemonManager vs cfg w of
        (Inl e, w') \<Rightarrow> (Inl e, now, w')
      | (Inr self, w') \<Rightarrow> run tick self events now w')"

subsection \<open>Concrete configurations, worlds and environments\<close>

text \<open>
  The configuration of the specification's lifecycle scenario: a stop command, no
  \<^verbatim>\<open>signals\<close> and no \<^verbatim>\<open>passthrough\<close> key.
\<close>

definition example_config :: config where
  "example_config =
     \<lparr> config_processname = ''worker'',
       config_pidfile = ''/tmp/w.pid'',
       config_startcmd = ''run.sh'',
       config_stopcmd = Some ''stop.sh'',
       config_waitstart = 5,
       config_waitstop = 5,
       config_signals = None,
       config_passthrough = None \<rparr>"

text \<open>A machine with no pid file; the supervisor is process 50, the next child is 300.\<close>

definition example_world :: world where
  "example_world =
     \<lparr> files = [],
       procs = [(1, \<lparr>pname = ''init'', pstatus = STATUS_SLEEPING\<rparr>),
                (50, \<lparr>pname = ''python3'', pstatus = STATUS_RUNNING\<rparr>)],
       stdin = [],
       stdin_closed = False,
       getpid = 50,
       executables = [''run.sh'', ''stop.sh'', ''reload.sh''],
       unstartable = [],
       next_pid = 300,
       sent = [] \<rparr>"

text \<open>The pid file names process 100, which is gone.\<close>

definition stale_world :: world where
  "stale_world = example_world\<lparr>files := [(''/tmp/w.pid'', ''100\<newline>'')]\<rparr>"

text \<open>The pid file names the running worker 100.\<close>

definition worker_world :: world where
  "worker_world =
     stale_world\<lparr>procs := procs example_world @ [(100, \<lparr>pname = ''worker'', pstatus = STATUS_SLEEPING\<rparr>)]\<rparr>"

text \<open>The pid file names process 1, a live process that is not the worker.\<close>

definition foreign_world :: world where
  "foreign_world = example_world\<lparr>files := [(''/tmp/w.pid'', ''1\<newline>'')]\<rparr>"

text \<open>Nothing happens: a started command runs on and writes no pid file.\<close>

definition idle :: env where
  "idle now w = w"

text \<open>
  The restart of the specification's scenario: in the first half second the command
  300 stops worker 100, starts worker 200, writes 200 to the pid file and exits.
\<close>

definition restart :: env where
  "restart now w =
     (if now = 0 then
        w\<lparr>files := [(''/tmp/w.pid'', ''200\<newline>'')],
          procs := [(1, \<lparr>pname = ''init'', pstatus = STATUS_SLEEPING\<rparr>),
                    (50, \<lparr>pname = ''python3'', pstatus = STATUS_RUNNING\<rparr>),
                    (200, \<lparr>pname = ''worker'', pstatus = STATUS_SLEEPING\<rparr>),
                    (300, \<lparr>pname = ''reload.sh'', pstatus = STATUS_ZOMBIE\<rparr>)]\<rparr>
      else w)"

text \<open>
  A start: in the first half second the command 300 starts worker 100, which writes its
  pid file; the command exits in the second. After five seconds the pid file is
  missing while the worker runs on.
\<close>

definition lifecycle :: env where
  "lifecycle now w =
     (if now = 0 then
        w\<lparr>files := [(''/tmp/w.pid'', ''100\<newline>'')],
          procs := procs w @ [(100, \<lparr>pname = ''worker'', pstatus = STATUS_SLEEPING\<rparr>)]\<rparr>
      else if now = 1 then
        w\<lparr>procs := AList.update 300 \<lparr>pname = ''run.sh'', pstatus = STATUS_ZOMBIE\<rparr> (procs w)\<rparr>
      else if now \<ge> 10 then w\<lparr>files := []\<rparr>
      else w)"

text \<open>
  A restart that flaps: the command 300 starts worker 200 beside worker 100, writes 200
  to the pid file and exits; worker 200 dies one second later, worker 100 runs on.
\<close>

definition flap :: env where
  "flap now w =
     (if now = 0 then
        w\<lparr>files := [(''/tmp/w.pid'', ''200\<newline>'')],
          procs := AList.update 300 \<lparr>pname = ''reload.sh'', pstatus = STATUS_ZOMBIE\<rparr> (procs w)
                     @ [(200, \<lparr>pname = ''worker'', pstatus = STATUS_SLEEPING\<rparr>)]\<rparr>
      else if now = 2 then w\<lparr>procs := AList.delete 200 (procs w)\<rparr>
      else w)"

text \<open>
  A start whose pid file is rewritten: the file is there with pid 100 after half a
  second, before the worker is up; in the next half second the worker comes up and the
  file is away.
\<close>

definition torn :: env where
  "torn now w =
     (if now = 0 then w\<lparr>files := [(''/tmp/w.pid'', ''100\<newline>'')]\<rparr>
      else if now = 1 then
        w\<lparr>files := [],
          procs := procs w @ [(100, \<lparr>pname = ''worker'', pstatus = STATUS_SLEEPING\<rparr>)]\<rparr>
      else w)"

text \<open>A stop command 300 that exits in the first half second.\<close>

definition stopping :: env where
  "stopping now w =
     (if now = 0 then
        w\<lparr>procs := AList.update 300 \<lparr>pname = ''stop.sh'', pstatus = STATUS_ZOMBIE\<rparr> (procs w)\<rparr>
      else w)"

section \<open>Properties\<close>

subsection \<open>The startup guard\<close>

lemma load_text_frame:
  "load_text w f = (r, w') \<Longrightarrow> files w' = files w \<and> procs w' = procs w"
  by (auto simp: load_text_def split: if_splits option.splits)

lemma read_pid_frame:
  "read_pid w f = (r, w') \<Longrightarrow> files w' = files w \<and> procs w' = procs w"
  by (auto simp: read_pid_def split: prod.splits sum.splits dest: load_text_frame)

lemma os_remove_gone:
  "os_remove w f = (Inr u, w') \<Longrightarrow>
     \<not> file_exists w' f \<and> w' = w\<lparr>files := AList.delete f (files w)\<rparr>"
proof -
  assume a: "os_remove w f = (Inr u, w')"
  then have eq: "w' = w\<lparr>files := AList.delete f (files w)\<rparr>"
    by (simp add: os_remove_def split: if_splits)
  have "f \<notin> fst ` set (AList.delete f (files w))"
    by (rule delete_notin_dom)
  with eq show ?thesis
    by (simp add: file_exists_def)
qed

text \<open>
  Every exception of the guard ends the process with status 1, and the guard leaves the
  process table as it is.
\<close>

lemma py_int_status: "py_int t = Inl e \<Longrightarrow> exit_status e = 1"
  by (auto simp: py_int_def split: list.splits option.splits if_splits)

lemma read_pid_status: "read_pid w f = (Inl e, w') \<Longrightarrow> exit_status e = 1"
  by (auto simp: read_pid_def load_text_def split: prod.splits sum.splits if_splits option.splits
      dest: py_int_status)

lemma os_remove_frame:
  "os_remove w f = (r, w') \<Longrightarrow> procs w' = procs w \<and> (\<forall>e. r = Inl e \<longrightarrow> exit_status e = 1)"
  by (auto simp: os_remove_def split: if_splits)

lemma guard_fatal:
  assumes "check_if_already_running self w = (r, w')"
  shows "procs w' = procs w \<and> (\<forall>e. r = Inl e \<longrightarrow> exit_status e = 1)"
proof (cases "file_exists w (self_pidfile self)")
  case False
  with assms show ?thesis by (auto simp: check_if_already_running_def)
next
  case True
  obtain i w1 where gi: "get_pid_info self w = (i, w1)"
    by (cases "get_pid_info self w")
  have fr: "procs w1 = procs w \<and> (\<forall>e. i = Inl e \<longrightarrow> exit_status e = 1)"
    using gi True
    by (auto simp: get_pid_info_def get_process_def split: prod.splits sum.splits if_splits
        dest: read_pid_frame read_pid_status)
  show ?thesis
    using assms True gi fr
    by (auto simp: check_if_already_running_def proc_name_def
        split: sum.splits option.splits if_splits dest: os_remove_frame)
qed

lemma guard_absent:
  "\<not> file_exists w (self_pidfile self) \<Longrightarrow> check_if_already_running self w = (Inr (), w)"
  by (simp add: check_if_already_running_def)

lemma guard_removes:
  assumes "file_exists w (self_pidfile self)"
    and "check_if_already_running self w = (Inr u, w')"
  shows "\<not> file_exists w' (self_pidfile self)"
  using assms
  by (auto simp: check_if_already_running_def
      split: prod.splits sum.splits option.splits if_splits dest: os_remove_gone)

text \<open>
  The guard ends the program with \<^verbatim>\<open>sys.exit\<close> only on line 199: the pid file exists
  and names a process of the table whose lower-cased name is the configured one.
\<close>

lemma guard_refusal_only_on_match:
  assumes "check_if_already_running self w = (Inl (SystemExit n), w')"
  shows "\<exists>pid info. file_exists w (self_pidfile self)
           \<and> read_pid w (self_pidfile self) = (Inr pid, w')
           \<and> map_of (procs w) pid = Some info
           \<and> lower (pname info) = self_processname self"
proof -
  have ld: "\<And>f r v. load_text w f = (Inl (SystemExit n), v) \<Longrightarrow> False"
    by (auto simp: load_text_def split: if_splits option.splits)
  have pi: "\<And>t. py_int t \<noteq> Inl (SystemExit n)"
    by (auto simp: py_int_def split: list.splits option.splits)
  have rp: "\<And>f v. read_pid w f = (Inl (SystemExit n), v) \<Longrightarrow> False"
    using ld pi by (auto simp: read_pid_def split: prod.splits sum.splits)
  show ?thesis
    using assms rp
    apply (simp add: check_if_already_running_def get_pid_info_def get_process_def
        proc_name_def os_remove_def
        split: if_splits prod.splits sum.splits option.splits)
    apply (auto dest: read_pid_frame)
    done
qed

text \<open>
  C9. When the startup guard has found a pid file and come back without ending the
  program, the file is gone, and a second call of the guard on the world it left
  changes nothing and comes back the same way: startup goes on.
\<close>

theorem C9_guard_idempotent:
  assumes "file_exists w (self_pidfile self)"
    and "check_if_already_running self w = (Inr u, w')"
  shows "\<not> file_exists w' (self_pidfile self)
           \<and> check_if_already_running self w' = (Inr (), w')"
  using guard_removes [OF assms] guard_absent by simp

theorem C9_guard_idempotent_witness:
  "file_exists stale_world (self_pidfile (init_fields example_config))
     \<and> check_if_already_running (init_fields example_config) stale_world = (Inr (), example_world)
     \<and> \<not> file_exists example_world (self_pidfile (init_fields example_config))
     \<and> check_if_already_running (init_fields example_config) example_world = (Inr (), example_world)"
proof -
  have h1: "file_exists stale_world (self_pidfile (init_fields example_config))"
    by code_simp
  have h2: "check_if_already_running (init_fields example_config) stale_world = (Inr (), example_world)"
    by code_simp
  show ?thesis
    using C9_guard_idempotent [OF h1 h2] h1 h2 by simp
qed

text \<open>
  C10. When the pid file exists and names a process of the process table, the guard
  ends the program with exit status 1 exactly when the lower-cased name of that process
  is the configured process name; when the names differ it deletes the pid file, though
  the process it names is alive, and startup goes on.
\<close>

theorem C10_guard_live_process:
  assumes ex: "file_exists w (self_pidfile self)"
    and rd: "read_pid w (self_pidfile self) = (Inr pid, w1)"
    and nn: "0 \<le> pid"
    and live: "map_of (procs w) pid = Some info"
  shows "check_if_already_running self w =
           (if lower (pname info) = self_processname self then (Inl (SystemExit 1), w1)
            else (Inr (), w1\<lparr>files := AList.delete (self_pidfile self) (files w1)\<rparr>))"
proof -
  from read_pid_frame [OF rd] have fr: "files w1 = files w" "procs w1 = procs w"
    by simp_all
  from live have dom: "pid \<in> fst ` set (procs w)"
    by (metis domI dom_map_of_conv_image_fst)
  have info: "get_pid_info self w = (Inr (Some pid), w1)"
    using ex rd nn dom fr by (simp add: get_pid_info_def get_process_def)
  have nm: "proc_name w1 pid = Inr (pname info)"
    using live fr by (simp add: proc_name_def)
  have ex1: "file_exists w1 (self_pidfile self)"
    using ex fr by (simp add: file_exists_def)
  show ?thesis
    using ex ex1 info nm by (simp add: check_if_already_running_def os_remove_def)
qed

theorem C10_guard_live_process_witness:
  "file_exists foreign_world (self_pidfile (init_fields example_config))
     \<and> read_pid foreign_world (self_pidfile (init_fields example_config)) = (Inr 1, foreign_world)
     \<and> map_of (procs foreign_world) 1 = Some \<lparr>pname = ''init'', pstatus = STATUS_SLEEPING\<rparr>
     \<and> check_if_already_running (init_fields example_config) foreign_world = (Inr (), example_world)"
proof -
  have h1: "file_exists foreign_world (self_pidfile (init_fields example_config))"
    by code_simp
  have h2: "read_pid foreign_world (self_pidfile (init_fields example_config)) = (Inr 1, foreign_world)"
    by code_simp
  have h3: "(0::int) \<le> 1"
    by simp
  have h4: "map_of (procs foreign_world) 1 = Some \<lparr>pname = ''init'', pstatus = STATUS_SLEEPING\<rparr>"
    by code_simp
  have h5: "lower (pname \<lparr>pname = ''init'', pstatus = STATUS_SLEEPING\<rparr>)
              \<noteq> self_processname (init_fields example_config)"
    by code_simp
  have h6: "foreign_world\<lparr>files := AList.delete (self_pidfile (init_fields example_config))
              (files foreign_world)\<rparr> = example_world"
    by code_simp
  show ?thesis
    using C10_guard_live_process [OF h1 h2 h3 h4] h1 h2 h4 h5 h6 by simp
qed

subsection \<open>Configuration\<close>

lemma py_split_not_Nil: "py_split c s \<noteq> []"
  by (induction s) (auto split: list.splits)

lemma py_split_no_sep: "c \<notin> set s \<Longrightarrow> py_split c s = [s]"
  by (induction s) auto

lemma py_split_one_sep:
  "c \<notin> set a \<Longrightarrow> c \<notin> set b \<Longrightarrow> py_split c (a @ c # b) = [a, b]"
  by (induction a) (auto simp: py_split_no_sep)

lemma py_split_prefix:
  "c \<notin> set a \<Longrightarrow> py_split c (a @ c # b) = a # py_split c b"
  by (induction a) auto

text \<open>The lookup dictionary that lines 208 to 213 build from the table of Linux.\<close>

lemma lookup_table:
  "build_lookup valid_signals =
     [(''SIGHUP'', 1), (''1'', 1), (''SIGINT'', 2), (''2'', 2),
      (''SIGQUIT'', 3), (''3'', 3), (''SIGILL'', 4), (''4'', 4),
      (''SIGTRAP'', 5), (''5'', 5), (''SIGABRT'', 6), (''6'', 6),
      (''SIGBUS'', 7), (''7'', 7), (''SIGFPE'', 8), (''8'', 8),
      (''SIGKILL'', 9), (''9'', 9), (''SIGUSR1'', 10), (''10'', 10),
      (''SIGSEGV'', 11), (''11'', 11), (''SIGUSR2'', 12), (''12'', 12),
      (''SIGPIPE'', 13), (''13'', 13), (''SIGALRM'', 14), (''14'', 14),
      (''SIGTERM'', 15), (''15'', 15), (''SIGSTKFLT'', 16), (''16'', 16),
      (''SIGCHLD'', 17), (''17'', 17), (''SIGCONT'', 18), (''18'', 18),
      (''SIGSTOP'', 19), (''19'', 19), (''SIGTSTP'', 20), (''20'', 20),
      (''SIGTTIN'', 21), (''21'', 21), (''SIGTTOU'', 22), (''22'', 22),
      (''SIGURG'', 23), (''23'', 23), (''SIGXCPU'', 24), (''24'', 24),
      (''SIGXFSZ'', 25), (''25'', 25), (''SIGVTALRM'', 26), (''26'', 26),
      (''SIGPROF'', 27), (''27'', 27), (''SIGWINCH'', 28), (''28'', 28),
      (''SIGIO'', 29), (''29'', 29), (''SIGPWR'', 30), (''30'', 30),
      (''SIGSYS'', 31), (''31'', 31), (''SIGRTMIN'', 34), (''34'', 34),
      (''35'', 35), (''36'', 36), (''37'', 37), (''38'', 38), (''39'', 39),
      (''40'', 40), (''41'', 41), (''42'', 42), (''43'', 43), (''44'', 44),
      (''45'', 45), (''46'', 46), (''47'', 47), (''48'', 48), (''49'', 49),
      (''50'', 50), (''51'', 51), (''52'', 52), (''53'', 53), (''54'', 54),
      (''55'', 55), (''56'', 56), (''57'', 57), (''58'', 58), (''59'', 59),
      (''60'', 60), (''61'', 61), (''62'', 62), (''63'', 63),
      (''SIGRTMAX'', 64), (''64'', 64)]"
  by code_simp

lemma lookup_SIGHUP: "map_of (build_lookup valid_signals) ''SIGHUP'' = Some 1"
  by (simp add: lookup_table)

lemma lookup_SIGSTOP: "map_of (build_lookup valid_signals) ''SIGSTOP'' = Some 19"
  by (simp add: lookup_table)

lemma lookup_SIGTSTP: "map_of (build_lookup valid_signals) ''SIGTSTP'' = Some 20"
  by (simp add: lookup_table)

lemma lookup_SIGKILL: "map_of (build_lookup valid_signals) ''SIGKILL'' = Some 9"
  by (simp add: lookup_table)

lemma lookup_FOO: "map_of (build_lookup valid_signals) ''FOO'' = None"
  by (simp add: lookup_table)

lemma passthrough_entry_raises: "\<exists>e. passthrough_entry self x = Inl e"
  by (auto simp: passthrough_entry_def Let_def split: option.splits)

lemma for_each_first_raises:
  assumes "xs \<noteq> []" and "\<And>s x. \<exists>e. body s x = Inl e"
  shows "\<exists>e. for_each body xs s = Inl e"
proof (cases xs)
  case Nil
  with assms(1) show ?thesis by simp
next
  case (Cons x xs')
  from assms(2) obtain e where "body s x = Inl e" by blast
  with Cons show ?thesis by simp
qed

lemma passthrough_block_raises:
  assumes "config_passthrough (self_config self) = Some p"
  shows "\<exists>e. passthrough_block self = Inl e"
  using assms for_each_first_raises [OF py_split_not_Nil, of passthrough_entry]
    passthrough_entry_raises
  by (simp add: passthrough_block_def)

lemma passthrough_block_Inr:
  assumes "passthrough_block self = Inr self'"
  shows "self' = self \<and> config_passthrough (self_config self) = None"
proof (cases "config_passthrough (self_config self)")
  case None
  with assms show ?thesis by (simp add: passthrough_block_def)
next
  case (Some p)
  from passthrough_block_raises [OF Some] assms show ?thesis by auto
qed

lemma stopcmd_block_frame:
  "handlers (stopcmd_block self) = handlers self
     \<and> self_config (stopcmd_block self) = self_config self
     \<and> signal_lookup (stopcmd_block self) = signal_lookup self
     \<and> passthroughmap (stopcmd_block self) = passthroughmap self"
  by (simp add: stopcmd_block_def stopcmd_entry_def split: option.splits)

text \<open>
  No configuration with a \<^verbatim>\<open>passthrough\<close> key gets through \<^verbatim>\<open>process_config\<close>: every
  path through the body of its loop raises, and the loop runs at least once.
\<close>

lemma passthrough_always_raises:
  assumes "config_passthrough (self_config self) = Some p"
  shows "\<exists>e. process_config vs self = Inl e"
proof -
  have "\<exists>e. passthrough_block (self\<lparr>signal_lookup := build_lookup vs, passthroughmap := []\<rparr>) = Inl e"
    by (rule passthrough_block_raises [where p = p]) (simp add: assms)
  then show ?thesis
    by (auto simp: process_config_def)
qed

text \<open>
  Every exception of \<^verbatim>\<open>process_config\<close> ends the process with status 1: the two
  bodies and the registrations raise \<^verbatim>\<open>SystemExit(1)\<close> or an exception that nothing
  catches.
\<close>

lemma for_each_status:
  assumes "\<And>s x e. body s x = Inl e \<Longrightarrow> exit_status e = 1"
  shows "for_each body xs s = Inl e \<Longrightarrow> exit_status e = 1"
proof (induction xs arbitrary: s)
  case Nil
  then show ?case by simp
next
  case (Cons x xs)
  show ?case
  proof (cases "body s x")
    case (Inl e')
    with Cons.prems have "e' = e" by simp
    with Inl assms show ?thesis by blast
  next
    case (Inr s')
    with Cons.prems have "for_each body xs s' = Inl e" by simp
    then show ?thesis by (rule Cons.IH)
  qed
qed

lemma passthrough_entry_status: "passthrough_entry self x = Inl e \<Longrightarrow> exit_status e = 1"
  by (auto simp: passthrough_entry_def Let_def split: if_splits option.splits)

lemma signals_entry_status: "signals_entry self x = Inl e \<Longrightarrow> exit_status e = 1"
  by (auto simp: signals_entry_def Let_def split: if_splits option.splits)

lemma register_status: "register vs self sig = Inl e \<Longrightarrow> exit_status e = 1"
  by (auto simp: register_def signal_signal_def split: if_splits sum.splits)

lemma register_passthrough_status: "register_passthrough vs self item = Inl e \<Longrightarrow> exit_status e = 1"
  by (auto simp: register_passthrough_def signal_signal_def split: if_splits sum.splits)

lemma passthrough_loop_status:
  "for_each passthrough_entry xs s = Inl e \<Longrightarrow> exit_status e = 1"
  by (rule for_each_status [of passthrough_entry]) (rule passthrough_entry_status)

lemma signals_loop_status:
  "for_each signals_entry xs s = Inl e \<Longrightarrow> exit_status e = 1"
  by (rule for_each_status [of signals_entry]) (rule signals_entry_status)

lemma register_loop_status:
  "for_each (register vs) xs s = Inl e \<Longrightarrow> exit_status e = 1"
  by (rule for_each_status [of "register vs"]) (rule register_status)

lemma register_passthrough_loop_status:
  "for_each (register_passthrough vs) xs s = Inl e \<Longrightarrow> exit_status e = 1"
  by (rule for_each_status [of "register_passthrough vs"]) (rule register_passthrough_status)

lemma signals_block_status:
  "signals_block vs self = Inl e \<Longrightarrow> exit_status e = 1"
  by (auto simp: signals_block_def split: option.splits sum.splits
      intro: signals_loop_status register_loop_status register_passthrough_loop_status)

lemma process_config_status:
  assumes "process_config vs self = Inl e"
  shows "exit_status e = 1"
  using assms
  by (auto simp: process_config_def passthrough_block_def split: sum.splits option.splits
      intro: passthrough_loop_status signals_block_status)

text \<open>
  When \<^verbatim>\<open>process_config\<close> raises, so does \<^verbatim>\<open>__init__\<close>, whether in the guard or in the
  configuration: the process ends with status 1 before \<^verbatim>\<open>run\<close> is called, at the time
  it started and with the process table as it was.
\<close>

lemma init_fatal:
  assumes "\<exists>e. process_config vs (init_fields cfg) = Inl e"
  shows "\<exists>e w'. DaemonManager vs cfg w = (Inl e, w') \<and> exit_status e = 1 \<and> procs w' = procs w"
proof -
  obtain r w1 where g: "check_if_already_running (init_fields cfg) w = (r, w1)"
    by (cases "check_if_already_running (init_fields cfg) w")
  from guard_fatal [OF g] have fr: "procs w1 = procs w" and st: "\<And>e. r = Inl e \<Longrightarrow> exit_status e = 1"
    by auto
  from assms obtain e where pc: "process_config vs (init_fields cfg) = Inl e" by blast
  show ?thesis
  proof (cases r)
    case (Inl e')
    with g fr st show ?thesis by (simp add: DaemonManager_def)
  next
    case (Inr u)
    with g fr pc process_config_status [OF pc] show ?thesis by (simp add: DaemonManager_def)
  qed
qed

lemma main_fatal:
  assumes "\<exists>e. process_config vs (init_fields cfg) = Inl e"
  shows "\<exists>e w'. main vs tick cfg events now w = (Inl e, now, w') \<and> exit_status e = 1
           \<and> procs w' = procs w"
proof -
  from init_fatal [OF assms] obtain e w' where "DaemonManager vs cfg w = (Inl e, w')"
    and "exit_status e = 1" and "procs w' = procs w"
    by blast
  then show ?thesis
    by (simp add: main_def)
qed

text \<open>Without a \<^verbatim>\<open>signals\<close> key, a configuration that gets through installs no handler.\<close>

lemma no_signals_no_handlers:
  assumes "config_signals (self_config self) = None"
    and "process_config vs self = Inr self'"
  shows "handlers self' = handlers self"
proof -
  let ?s = "self\<lparr>signal_lookup := build_lookup vs, passthroughmap := []\<rparr>"
  from assms(2) obtain self1 where p: "passthrough_block ?s = Inr self1"
    and s: "signals_block vs (stopcmd_block self1) = Inr self'"
    by (auto simp: process_config_def split: sum.splits)
  from passthrough_block_Inr [OF p] have eq: "self1 = ?s" by simp
  have "config_signals (self_config (stopcmd_block self1)) = None"
    using assms(1) eq stopcmd_block_frame [of self1] by simp
  with s have "self' = stopcmd_block self1"
    by (simp add: signals_block_def)
  then show ?thesis
    using eq stopcmd_block_frame [of self1] by simp
qed

text \<open>
  C2. A passthrough configuration of one entry \<open>sig_in=sig_out\<close> whose first name is
  in the lookup dictionary does not get through configuration: line 226 raises
  NameError for the unbound name \<^verbatim>\<open>signal_lookup\<close>. No mapping is stored and the
  monitoring loop is never reached.
\<close>

theorem C2_valid_passthrough_entry_raises:
  assumes p: "config_passthrough (self_config self) = Some (sig_in @ CHR ''='' # sig_out)"
    and valid: "map_of (build_lookup vs) sig_in = Some s"
    and ni: "CHR ''='' \<notin> set sig_in" "CHR '';'' \<notin> set sig_in"
    and no: "CHR ''='' \<notin> set sig_out" "CHR '';'' \<notin> set sig_out"
  shows "process_config vs self = Inl (NameError ''signal_lookup'')"
proof -
  have one: "py_split CHR '';'' (sig_in @ CHR ''='' # sig_out) = [sig_in @ CHR ''='' # sig_out]"
    using ni no by (simp add: py_split_no_sep)
  have two: "py_split CHR ''='' (sig_in @ CHR ''='' # sig_out) = [sig_in, sig_out]"
    using ni no by (simp add: py_split_one_sep)
  show ?thesis
    using p valid
    by (simp add: process_config_def passthrough_block_def one passthrough_entry_def two)
qed

theorem C2_valid_passthrough_entry_raises_witness:
  "map_of (build_lookup valid_signals) ''SIGHUP'' = Some 1
     \<and> process_config valid_signals
         (init_fields (example_config\<lparr>config_passthrough := Some ''SIGHUP=SIGUSR1''\<rparr>))
       = Inl (NameError ''signal_lookup'')"
proof -
  have h1: "config_passthrough (self_config (init_fields
              (example_config\<lparr>config_passthrough := Some ''SIGHUP=SIGUSR1''\<rparr>)))
            = Some (''SIGHUP'' @ CHR ''='' # ''SIGUSR1'')"
    by (simp add: init_fields_def)
  have h3: "CHR ''='' \<notin> set ''SIGHUP''" "CHR '';'' \<notin> set ''SIGHUP''"
    by simp_all
  have h4: "CHR ''='' \<notin> set ''SIGUSR1''" "CHR '';'' \<notin> set ''SIGUSR1''"
    by simp_all
  show ?thesis
    using C2_valid_passthrough_entry_raises [OF h1 lookup_SIGHUP h3 h4] lookup_SIGHUP by simp
qed

text \<open>
  C3. With a stop command and no \<^verbatim>\<open>signals\<close> key, configuration gets through with
  SIGTERM and SIGINT as the keys of the command map, and with no handler installed: the
  registration loops of lines 269 to 276 stand under the test of line 242.
\<close>

theorem C3_stopcmd_alone_registers_nothing:
  "(case process_config valid_signals (init_fields example_config) of
      Inl e \<Rightarrow> None
    | Inr self \<Rightarrow>
        Some (map fst (signal_commands self), map fst (passthroughmap self), handlers self))
   = Some ([SIGTERM, SIGINT], [], [])"
  by (simp add: process_config_def init_fields_def example_config_def passthrough_block_def
      stopcmd_block_def stopcmd_entry_def signals_block_def SIGTERM_def SIGINT_def)

text \<open>An unknown first name in a passthrough entry: KeyError on line 230.\<close>

lemma unknown_passthrough_name_KeyError:
  assumes "map_of (signal_lookup self) sig_in = None" and "CHR ''='' \<notin> set sig_in"
  shows "passthrough_entry self sig_in = Inl (KeyError sig_in)"
    and "CHR ''='' \<notin> set sig_out \<Longrightarrow>
           passthrough_entry self (sig_in @ CHR ''='' # sig_out) = Inl (KeyError sig_in)"
  using assms by (simp_all add: passthrough_entry_def py_split_no_sep py_split_one_sep)

text \<open>
  C5. When the passthrough string has an entry in which a name, in the first or the
  second place, is not in the lookup dictionary, \<^verbatim>\<open>process_config\<close> raises, and
  \<^verbatim>\<open>__init__\<close> with it: the process ends at once with exit status 1, before \<^verbatim>\<open>run\<close>
  starts anything (this holds for every passthrough string, by the lemma
  \<open>passthrough_always_raises\<close>). The exit is \<^verbatim>\<open>sys.exit(1)\<close> of line 222 or an exception that nothing
  catches (KeyError of line 230, NameError of line 226): line 229 logs and does not exit.
\<close>

theorem C5_unknown_passthrough_name_is_fatal:
  assumes p: "config_passthrough cfg = Some p"
    and entry: "entry \<in> set (py_split CHR '';'' p)"
    and name: "name \<in> set (py_split CHR ''='' entry)"
    and unknown: "map_of (build_lookup vs) name = None"
  shows "(\<exists>e. process_config vs (init_fields cfg) = Inl e \<and> exit_status e = 1)
           \<and> (\<exists>e w'. main vs tick cfg events now w = (Inl e, now, w') \<and> exit_status e = 1
                 \<and> procs w' = procs w)"
proof -
  have "config_passthrough (self_config (init_fields cfg)) = Some p"
    using p by (simp add: init_fields_def)
  from passthrough_always_raises [OF this]
  have r: "\<exists>e. process_config vs (init_fields cfg) = Inl e" .
  then obtain e where e: "process_config vs (init_fields cfg) = Inl e" ..
  from process_config_status [OF e] e main_fatal [OF r] show ?thesis
    by blast
qed

theorem C5_unknown_passthrough_name_is_fatal_witness:
  "''FOO'' \<in> set (py_split CHR ''='' ''FOO'')
     \<and> ''FOO'' \<in> set (py_split CHR ''='' ''SIGHUP=FOO'')
     \<and> map_of (build_lookup valid_signals) ''FOO'' = None
     \<and> process_config valid_signals
         (init_fields (example_config\<lparr>config_passthrough := Some ''FOO''\<rparr>))
       = Inl (KeyError ''FOO'')
     \<and> process_config valid_signals
         (init_fields (example_config\<lparr>config_passthrough := Some ''SIGHUP=FOO''\<rparr>))
       = Inl (NameError ''signal_lookup'')
     \<and> (\<exists>e w'. main valid_signals idle (example_config\<lparr>config_passthrough := Some ''FOO''\<rparr>) [] 0 example_world
                  = (Inl e, 0, w')
           \<and> exit_status e = 1 \<and> procs w' = procs example_world)
     \<and> (\<exists>e w'. main valid_signals idle (example_config\<lparr>config_passthrough := Some ''SIGHUP=FOO''\<rparr>) [] 0 example_world
                  = (Inl e, 0, w')
           \<and> exit_status e = 1 \<and> procs w' = procs example_world)"
proof -
  have a1: "config_passthrough (example_config\<lparr>config_passthrough := Some ''FOO''\<rparr>) = Some ''FOO''"
    by simp
  have a2: "''FOO'' \<in> set (py_split CHR '';'' ''FOO'')"
    by simp
  have a3: "''FOO'' \<in> set (py_split CHR ''='' ''FOO'')"
    by simp
  have b1: "config_passthrough (example_config\<lparr>config_passthrough := Some ''SIGHUP=FOO''\<rparr>)
              = Some ''SIGHUP=FOO''"
    by simp
  have b2: "''SIGHUP=FOO'' \<in> set (py_split CHR '';'' ''SIGHUP=FOO'')"
    by simp
  have b3: "''FOO'' \<in> set (py_split CHR ''='' ''SIGHUP=FOO'')"
    by simp
  have ev: "process_config valid_signals
              (init_fields (example_config\<lparr>config_passthrough := Some ''FOO''\<rparr>))
            = Inl (KeyError ''FOO'')"
    "process_config valid_signals
              (init_fields (example_config\<lparr>config_passthrough := Some ''SIGHUP=FOO''\<rparr>))
            = Inl (NameError ''signal_lookup'')"
    by (simp_all add: process_config_def init_fields_def example_config_def passthrough_block_def
        passthrough_entry_def lookup_FOO lookup_SIGHUP)
  show ?thesis
    using C5_unknown_passthrough_name_is_fatal [OF a1 a2 a3 lookup_FOO, of idle "[]" 0 example_world]
      C5_unknown_passthrough_name_is_fatal [OF b1 b2 b3 lookup_FOO, of idle "[]" 0 example_world]
      a3 b3 lookup_FOO ev
    by simp
qed

text \<open>
  The body of the signals loop leaves the lookup dictionary and the passthrough map as
  they are and removes no key of the command map.
\<close>

lemma signals_entry_frame:
  assumes "signals_entry s x = Inr s'"
  shows "signal_lookup s' = signal_lookup s \<and> passthroughmap s' = passthroughmap s
           \<and> fst ` set (signal_commands s) \<subseteq> fst ` set (signal_commands s')"
proof -
  have up: "\<And>k v. fst ` set (signal_commands s)
              \<subseteq> fst ` set (AList.update k v (signal_commands s))"
    by (simp add: dom_update subset_insertI)
  from assms consider "s' = s"
    | k v where "s' = s\<lparr>signal_commands := AList.update k v (signal_commands s)\<rparr>"
    by (auto simp: signals_entry_def Let_def split: if_splits option.splits)
  then show ?thesis
  proof cases
    case 1
    then show ?thesis by simp
  next
    case 2
    with up show ?thesis by simp
  qed
qed

lemma signals_loop_frame:
  "for_each signals_entry xs s = Inr s' \<Longrightarrow>
     signal_lookup s' = signal_lookup s \<and> passthroughmap s' = passthroughmap s
       \<and> fst ` set (signal_commands s) \<subseteq> fst ` set (signal_commands s')"
proof (induction xs arbitrary: s)
  case Nil
  then show ?case by simp
next
  case (Cons x xs)
  from Cons.prems obtain s1 where a: "signals_entry s x = Inr s1"
    and b: "for_each signals_entry xs s1 = Inr s'"
    by (auto split: sum.splits)
  from signals_entry_frame [OF a] Cons.IH [OF b] show ?case
    by auto
qed

text \<open>An entry on SIGKILL is refused with exit status 1, whatever the command.\<close>

lemma sigkill_entry_rejected:
  assumes "map_of (signal_lookup self) sig = Some SIGKILL" and "CHR ''='' \<notin> set sig"
  shows "signals_entry self (sig @ CHR ''='' # cmd) = Inl (SystemExit 1)"
proof -
  have sp: "py_split CHR ''='' (sig @ CHR ''='' # cmd) = sig # py_split CHR ''='' cmd"
    using assms(2) by (rule py_split_prefix)
  show ?thesis
    using assms(1) by (simp add: signals_entry_def sp Let_def)
qed

text \<open>
  An entry on SIGSTOP passes the test of line 251, which names SIGKILL and SIGTSTP:
  when the body comes back, SIGSTOP is a key of the command map.
\<close>

lemma sigstop_entry_Inr:
  assumes "map_of (signal_lookup self) sig = Some SIGSTOP" and "CHR ''='' \<notin> set sig"
    and "passthroughmap self = []"
    and "signals_entry self (sig @ CHR ''='' # cmd) = Inr self'"
  shows "SIGSTOP \<in> fst ` set (signal_commands self')"
proof -
  have sp: "py_split CHR ''='' (sig @ CHR ''='' # cmd) = sig # py_split CHR ''='' cmd"
    using assms(2) by (rule py_split_prefix)
  have ne: "SIGSTOP \<noteq> SIGKILL" "SIGSTOP \<noteq> SIGTSTP" "SIGSTOP \<noteq> SIGTERM" "SIGSTOP \<noteq> SIGINT"
    by (simp_all add: SIGSTOP_def SIGKILL_def SIGTSTP_def SIGTERM_def SIGINT_def)
  show ?thesis
    using assms(1,3,4) ne
    by (auto simp: signals_entry_def sp Let_def dom_update split: if_splits)
qed

lemma sigkill_loop_raises:
  assumes "map_of lk sig = Some SIGKILL" and "CHR ''='' \<notin> set sig"
  shows "sig @ CHR ''='' # cmd \<in> set xs \<Longrightarrow> signal_lookup s = lk \<Longrightarrow>
           \<exists>e. for_each signals_entry xs s = Inl e"
proof (induction xs arbitrary: s)
  case Nil
  then show ?case by simp
next
  case (Cons x xs)
  show ?case
  proof (cases "signals_entry s x")
    case (Inl e)
    then show ?thesis by simp
  next
    case (Inr s1)
    have "x \<noteq> sig @ CHR ''='' # cmd"
      using Inr sigkill_entry_rejected [of s sig cmd] assms Cons.prems(2) by auto
    with Cons.prems(1) have mem: "sig @ CHR ''='' # cmd \<in> set xs" by simp
    from signals_entry_frame [OF Inr] Cons.prems(2) have "signal_lookup s1 = lk" by simp
    from Cons.IH [OF mem this] Inr show ?thesis by simp
  qed
qed

lemma sigstop_loop_stores:
  assumes "map_of lk sig = Some SIGSTOP" and "CHR ''='' \<notin> set sig"
  shows "sig @ CHR ''='' # cmd \<in> set xs \<Longrightarrow> signal_lookup s = lk \<Longrightarrow> passthroughmap s = [] \<Longrightarrow>
           for_each signals_entry xs s = Inr s' \<Longrightarrow> SIGSTOP \<in> fst ` set (signal_commands s')"
proof (induction xs arbitrary: s)
  case Nil
  then show ?case by simp
next
  case (Cons x xs)
  from Cons.prems(4) obtain s1 where a: "signals_entry s x = Inr s1"
    and b: "for_each signals_entry xs s1 = Inr s'"
    by (auto split: sum.splits)
  from signals_entry_frame [OF a] Cons.prems(2,3)
  have fr: "signal_lookup s1 = lk" "passthroughmap s1 = []" by simp_all
  show ?case
  proof (cases "x = sig @ CHR ''='' # cmd")
    case True
    with a Cons.prems(2,3) assms have "SIGSTOP \<in> fst ` set (signal_commands s1)"
      using sigstop_entry_Inr [of s sig cmd s1] by simp
    with signals_loop_frame [OF b] show ?thesis by auto
  next
    case False
    with Cons.prems(1) have "sig @ CHR ''='' # cmd \<in> set xs" by simp
    from Cons.IH [OF this fr b] show ?thesis .
  qed
qed

text \<open>The registration of line 270 raises at the key SIGSTOP, if not before.\<close>

lemma register_loop_stop:
  "SIGSTOP \<in> set ks \<Longrightarrow> \<exists>e. for_each (register vs) ks s = Inl e"
proof (induction ks arbitrary: s)
  case Nil
  then show ?case by simp
next
  case (Cons k ks)
  show ?case
  proof (cases "register vs s k")
    case (Inl e)
    then show ?thesis by simp
  next
    case (Inr s1)
    then have "k \<noteq> SIGSTOP"
      by (auto simp: register_def signal_signal_def)
    with Cons.prems have "SIGSTOP \<in> set ks" by simp
    from Cons.IH [OF this] Inr show ?thesis by simp
  qed
qed

lemma uncatchable_binding_raises:
  assumes s: "config_signals (self_config self) = Some s"
    and mem: "sig @ CHR ''='' # cmd \<in> set (py_split CHR '';'' s)"
    and ns: "CHR ''='' \<notin> set sig"
    and lk: "map_of (build_lookup vs) sig = Some k"
    and k: "k = SIGKILL \<or> k = SIGSTOP"
  shows "\<exists>e. process_config vs self = Inl e"
proof (cases "process_config vs self")
  case (Inl e)
  then show ?thesis by simp
next
  case (Inr self')
  let ?s0 = "self\<lparr>signal_lookup := build_lookup vs, passthroughmap := []\<rparr>"
  from Inr obtain self1 where p: "passthrough_block ?s0 = Inr self1"
    and sb: "signals_block vs (stopcmd_block self1) = Inr self'"
    by (auto simp: process_config_def split: sum.splits)
  from passthrough_block_Inr [OF p] have eq: "self1 = ?s0" by simp
  let ?s1 = "stopcmd_block self1"
  have fr: "signal_lookup ?s1 = build_lookup vs" "passthroughmap ?s1 = []"
    "config_signals (self_config ?s1) = Some s"
    using eq s stopcmd_block_frame [of self1] by simp_all
  from sb fr(3) obtain self2 where l1: "for_each signals_entry (py_split CHR '';'' s) ?s1 = Inr self2"
    and l2: "for_each (register vs) (map fst (signal_commands self2)) self2 \<noteq> Inl e" for e
    by (auto simp: signals_block_def split: sum.splits)
  from k show ?thesis
  proof
    assume "k = SIGKILL"
    with sigkill_loop_raises [OF _ ns mem fr(1)] lk l1 show ?thesis by auto
  next
    assume "k = SIGSTOP"
    with sigstop_loop_stores [OF _ ns mem fr(1) fr(2) l1] lk
    have "SIGSTOP \<in> set (map fst (signal_commands self2))" by simp
    from register_loop_stop [OF this] l2 show ?thesis by blast
  qed
qed

text \<open>
  C6. When the signals string has an entry \<open>sig=cmd\<close> whose name \<open>sig\<close> stands for
  SIGKILL or SIGSTOP, whatever \<open>cmd\<close> is, \<^verbatim>\<open>process_config\<close> raises, and \<^verbatim>\<open>__init__\<close>
  with it: the process ends with exit status 1 at configuration time. For SIGKILL the
  exit is \<^verbatim>\<open>sys.exit(1)\<close> of line 253, if no entry before it raises; for SIGSTOP, which
  line 251 lets through, it is the OSError of \<^verbatim>\<open>signal.signal\<close> on line 270, if nothing
  raises before.
\<close>

theorem C6_uncatchable_binding_is_fatal:
  assumes s: "config_signals cfg = Some s"
    and mem: "sig @ CHR ''='' # cmd \<in> set (py_split CHR '';'' s)"
    and ns: "CHR ''='' \<notin> set sig"
    and lk: "map_of (build_lookup vs) sig = Some k"
    and k: "k = SIGKILL \<or> k = SIGSTOP"
  shows "(\<exists>e. process_config vs (init_fields cfg) = Inl e \<and> exit_status e = 1)
           \<and> (\<exists>e w'. main vs tick cfg events now w = (Inl e, now, w') \<and> exit_status e = 1
                 \<and> procs w' = procs w)"
proof -
  have "config_signals (self_config (init_fields cfg)) = Some s"
    using s by (simp add: init_fields_def)
  from uncatchable_binding_raises [OF this mem ns lk k]
  have r: "\<exists>e. process_config vs (init_fields cfg) = Inl e" .
  then obtain e where e: "process_config vs (init_fields cfg) = Inl e" ..
  from process_config_status [OF e] e main_fatal [OF r] show ?thesis
    by blast
qed

theorem C6_uncatchable_binding_is_fatal_witness:
  "map_of (build_lookup valid_signals) ''SIGSTOP'' = Some 19
     \<and> map_of (build_lookup valid_signals) ''SIGKILL'' = Some 9
     \<and> process_config valid_signals
         (init_fields (example_config\<lparr>config_signals := Some ''SIGSTOP=cmd''\<rparr>))
       = Inl OSError
     \<and> process_config valid_signals
         (init_fields (example_config\<lparr>config_signals := Some ''SIGKILL=cmd''\<rparr>))
       = Inl (SystemExit 1)
     \<and> (\<exists>e w'. main valid_signals idle (example_config\<lparr>config_signals := Some ''SIGSTOP=cmd''\<rparr>) [] 0 example_world
                  = (Inl e, 0, w')
           \<and> exit_status e = 1 \<and> procs w' = procs example_world)
     \<and> (\<exists>e w'. main valid_signals idle (example_config\<lparr>config_signals := Some ''SIGKILL=cmd''\<rparr>) [] 0 example_world
                  = (Inl e, 0, w')
           \<and> exit_status e = 1 \<and> procs w' = procs example_world)"
proof -
  have a1: "config_signals (example_config\<lparr>config_signals := Some ''SIGSTOP=cmd''\<rparr>)
              = Some ''SIGSTOP=cmd''"
    by simp
  have a2: "''SIGSTOP'' @ CHR ''='' # ''cmd'' \<in> set (py_split CHR '';'' ''SIGSTOP=cmd'')"
    by simp
  have a3: "CHR ''='' \<notin> set ''SIGSTOP''"
    by simp
  have a4: "(19::nat) = SIGKILL \<or> 19 = SIGSTOP"
    by (simp add: SIGSTOP_def)
  have b1: "config_signals (example_config\<lparr>config_signals := Some ''SIGKILL=cmd''\<rparr>)
              = Some ''SIGKILL=cmd''"
    by simp
  have b2: "''SIGKILL'' @ CHR ''='' # ''cmd'' \<in> set (py_split CHR '';'' ''SIGKILL=cmd'')"
    by simp
  have b3: "CHR ''='' \<notin> set ''SIGKILL''"
    by simp
  have b4: "(9::nat) = SIGKILL \<or> 9 = SIGSTOP"
    by (simp add: SIGKILL_def)
  have ev: "process_config valid_signals
              (init_fields (example_config\<lparr>config_signals := Some ''SIGSTOP=cmd''\<rparr>))
            = Inl OSError"
    "process_config valid_signals
              (init_fields (example_config\<lparr>config_signals := Some ''SIGKILL=cmd''\<rparr>))
            = Inl (SystemExit 1)"
    by (simp_all add: process_config_def init_fields_def example_config_def passthrough_block_def
        stopcmd_block_def stopcmd_entry_def signals_block_def signals_entry_def register_def
        signal_signal_def has_name_def lookup_SIGSTOP lookup_SIGKILL
        SIGTERM_def SIGINT_def SIGKILL_def SIGSTOP_def SIGTSTP_def)
  show ?thesis
    using C6_uncatchable_binding_is_fatal [OF a1 a2 a3 lookup_SIGSTOP a4, of idle "[]" 0 example_world]
      C6_uncatchable_binding_is_fatal [OF b1 b2 b3 lookup_SIGKILL b4, of idle "[]" 0 example_world]
      lookup_SIGSTOP lookup_SIGKILL ev
    by simp
qed

text \<open>
  The test of line 251 refuses an entry on SIGTSTP, a signal that can be caught, and a
  plain integer as key ends the registration on line 271.
\<close>

lemma sigtstp_and_plain_integer_entries:
  "process_config valid_signals
       (init_fields (example_config\<lparr>config_signals := Some ''SIGTSTP=cmd''\<rparr>))
     = Inl (SystemExit 1)
   \<and> process_config valid_signals
       (init_fields (example_config\<lparr>config_signals := Some ''35=cmd'', config_stopcmd := None\<rparr>))
     = Inl AttributeError"
  by code_simp

subsection \<open>The monitoring loop\<close>

text \<open>
  The dispatch of the monitoring loop on a signal of the passthrough map, once
  \<^verbatim>\<open>main_proc\<close> is set: the mapped signal goes to that process, no command runs and
  the loop goes on. No configuration leads here, since none with a passthrough key gets
  through \<^verbatim>\<open>process_config\<close>.
\<close>

lemma passthrough_dispatch:
  assumes "map_of (passthroughmap self) sig = Some sig2"
    and "p \<in> fst ` set (procs w)"
    and "sig2 \<notin> set (exit_signals self)"
  shows "try_block tick self (Got sig) main_pid (Some p) now w
           = (Inr (Inr None), now, w\<lparr>sent := sent w @ [(p, sig2)]\<rparr>)"
  using assms by (simp add: try_block_def resolve_signal_def send_signal_def)

subsection \<open>Transitions\<close>

text \<open>When the first loop ends at the deadline, line 136 returns at once.\<close>

lemma transition_timeout:
  assumes "detect tick expected_outcome pidfile old_pid cmd_subproc dttimeout None now w
             = (Inr new_pid, now1, w1)"
    and "dttimeout \<le> now1"
  shows "transition tick expected_outcome pidfile old_pid cmd_subproc cmd_proc dttimeout now w
           = (Inr False, now1, w1)"
  using assms by (simp add: transition_def)

lemma watchdog_missing_file:
  assumes "\<not> file_exists w (self_pidfile self)" and "self_pidfile self \<noteq> ''-''"
  shows "watchdog self None main_proc w = (Inl FileNotFoundError, w)"
proof -
  have "map_of (files w) (self_pidfile self) = None"
    using assms(1) by (simp add: file_exists_def map_of_eq_None_iff)
  then show ?thesis
    using assms(2) by (simp add: watchdog_def read_pid_def load_text_def)
qed

lemma stabilize_step_missing_file:
  assumes "\<not> file_exists w pidfile" and "pidfile \<noteq> ''-''"
  shows "stabilize_step PROCESS_RUNNING pidfile old_pid cmd_proc None w
           = (Inl FileNotFoundError, w)"
proof -
  have "map_of (files w) pidfile = None"
    using assms(1) by (simp add: file_exists_def map_of_eq_None_iff)
  then show ?thesis
    using assms(2) by (simp add: stabilize_step_def read_pid_def load_text_def)
qed

text \<open>
  No step of the two loops sends a signal; so, when the environment sends none in the
  supervisor's name, a call leaves \<open>sent\<close> as it was unless it reaches the cleanup.
\<close>

lemma load_text_sent: "load_text w f = (r, w') \<Longrightarrow> sent w' = sent w"
  by (auto simp: load_text_def split: if_splits option.splits)

lemma read_pid_sent: "read_pid w f = (r, w') \<Longrightarrow> sent w' = sent w"
  by (auto simp: read_pid_def split: prod.splits sum.splits dest: load_text_sent)

lemma read_old_pid_sent: "read_old_pid w f = (r, w') \<Longrightarrow> sent w' = sent w"
  by (auto simp: read_old_pid_def split: if_splits prod.splits sum.splits dest: read_pid_sent)

lemma launch_sent: "launch w cmd = (r, w') \<Longrightarrow> sent w' = sent w"
  by (auto simp: launch_def start_subprocess_def
      split: option.splits list.splits if_splits prod.splits sum.splits)

lemma popen_poll_sent: "popen_poll w c = (r, w') \<Longrightarrow> sent w' = sent w"
  by (auto simp: popen_poll_def split: option.splits if_splits)

lemma look_for_pid_sent: "look_for_pid w f old r0 np = (r, w') \<Longrightarrow> sent w' = sent w"
  by (auto simp: look_for_pid_def split: if_splits prod.splits sum.splits dest: read_pid_sent)

lemma look_for_new_sent: "look_for_new w np = (r, w') \<Longrightarrow> sent w' = sent w"
  by (auto simp: look_for_new_def split: option.splits sum.splits)

lemma detect_step_sent:
  "detect_step eo f old cs np w = (r, w') \<Longrightarrow> sent w' = sent w"
  apply (auto simp: detect_step_def
      split: expected_outcome.splits prod.splits sum.splits option.splits)
    apply (metis popen_poll_sent look_for_pid_sent look_for_new_sent)+
  done

lemma stabilize_step_sent:
  "stabilize_step eo f old cp pid w = (r, w') \<Longrightarrow> sent w' = sent w"
  by (auto simp: stabilize_step_def
      split: if_splits prod.splits sum.splits option.splits dest: read_pid_sent)

lemma detect_sent:
  "(\<And>t v. sent (tick t v) = sent v) \<Longrightarrow>
     detect tick eo f old cs dt np now w = (r, now', w') \<Longrightarrow> sent w' = sent w"
proof (induction tick eo f old cs dt np now w rule: detect.induct)
  case (1 tick eo f old cs dt np now w)
  note eq = "1.prems"(2)
  show ?case
  proof (cases "now < dt")
    case False
    with eq show ?thesis
      by (subst (asm) detect.simps) simp
  next
    case True
    obtain s w1 where st: "detect_step eo f old cs np w = (s, w1)"
      by (cases "detect_step eo f old cs np w")
    from detect_step_sent [OF st] have fr: "sent w1 = sent w" .
    show ?thesis
    proof (cases s)
      case (Inl e)
      with eq True st fr show ?thesis
        by (subst (asm) detect.simps) simp
    next
      case (Inr bp)
      obtain b np' where bp: "bp = (b, np')" by (cases bp)
      show ?thesis
      proof (cases b)
        case True
        with eq \<open>now < dt\<close> st fr Inr bp show ?thesis
          by (subst (asm) detect.simps) simp
      next
        case False
        from eq \<open>now < dt\<close> st Inr bp False
        have rec: "detect tick eo f old cs dt np' (now + 1) (tick now w1) = (r, now', w')"
          by (subst (asm) detect.simps) simp
        have "sent w' = sent (tick now w1)"
          using "1.IH" "1.prems"(1) \<open>now < dt\<close> st Inr bp False rec
          by simp
        then show ?thesis
          using fr "1.prems"(1) by simp
      qed
    qed
  qed
qed

lemma stabilize_False_sent:
  "(\<And>t v. sent (tick t v) = sent v) \<Longrightarrow>
     stabilize tick eo f old cp dt pid now w = (Inr (Some b), now', w') \<Longrightarrow> sent w' = sent w"
proof (induction tick eo f old cp dt pid now w rule: stabilize.induct)
  case (1 tick eo f old cp dt pid now w)
  note eq = "1.prems"(2)
  show ?case
  proof (cases "now < dt")
    case False
    with eq show ?thesis
      by (subst (asm) stabilize.simps) simp
  next
    case True
    obtain s w1 where st: "stabilize_step eo f old cp pid w = (s, w1)"
      by (cases "stabilize_step eo f old cp pid w")
    from stabilize_step_sent [OF st] have fr: "sent w1 = sent w" .
    show ?thesis
    proof (cases s)
      case (Inl e)
      with eq True st show ?thesis
        by (subst (asm) stabilize.simps) simp
    next
      case (Inr cp')
      obtain c pid' where cp': "cp' = (c, pid')" by (cases cp')
      show ?thesis
      proof (cases c)
        case Continue
        from eq \<open>now < dt\<close> st Inr cp' Continue
        have rec: "stabilize tick eo f old cp dt pid' (now + 1) (tick now w1) = (Inr (Some b), now', w')"
          by (subst (asm) stabilize.simps) simp
        have "sent w' = sent (tick now w1)"
          using "1.IH" "1.prems"(1) \<open>now < dt\<close> st Inr cp' Continue rec
          by simp
        then show ?thesis
          using fr "1.prems"(1) by simp
      next
        case Break
        with eq \<open>now < dt\<close> st Inr cp' show ?thesis
          by (subst (asm) stabilize.simps) simp
      next
        case (Return b')
        with eq \<open>now < dt\<close> st Inr cp' fr show ?thesis
          by (subst (asm) stabilize.simps) simp
      qed
    qed
  qed
qed

text \<open>In the mode PROCESS_RUNNING a call that returns False has sent no signal.\<close>

lemma running_False_sends_nothing:
  assumes tick: "\<And>t v. sent (tick t v) = sent v"
    and res: "run_cmd_and_wait tick cmd pidfile waittime PROCESS_RUNNING now w = (Inr False, now', w')"
  shows "sent w' = sent w"
proof -
  obtain r w1 where ro: "read_old_pid w pidfile = (r, w1)"
    by (cases "read_old_pid w pidfile")
  from read_old_pid_sent [OF ro] have f1: "sent w1 = sent w" .
  obtain l w2 where la: "launch w1 cmd = (l, w2)"
    by (cases "launch w1 cmd")
  from launch_sent [OF la] have f2: "sent w2 = sent w1" .
  obtain dl where dl: "deadline now waittime = dl"
    by simp
  show ?thesis
  proof (cases r)
    case (Inl e)
    with res ro show ?thesis by (simp add: run_cmd_and_wait_def)
  next
    case (Inr old_pid)
    note r = this
    show ?thesis
    proof (cases l)
      case (Inl e)
      with res ro la r dl show ?thesis
        by (cases dl) (simp_all add: run_cmd_and_wait_def)
    next
      case (Inr h)
      note l = this
      show ?thesis
      proof (cases h)
        case None
        with res ro la r l f1 f2 dl show ?thesis
          by (cases dl) (simp_all add: run_cmd_and_wait_def)
      next
        case (Some pr)
        obtain cs cp where pr: "pr = (cs, cp)" by (cases pr)
        from res ro r dl obtain dt where dt0: "deadline now waittime = Inr dt"
          by (cases dl) (simp_all add: run_cmd_and_wait_def)
        let ?dt = "dt"
        from res ro la r l Some pr dt0
        have tr: "transition tick PROCESS_RUNNING pidfile old_pid cs cp ?dt now w2 = (Inr False, now', w')"
          by (simp add: run_cmd_and_wait_def)
        obtain d now1 w3 where dt: "detect tick PROCESS_RUNNING pidfile old_pid cs ?dt None now w2 = (d, now1, w3)"
          by (cases "detect tick PROCESS_RUNNING pidfile old_pid cs ?dt None now w2")
        from detect_sent [OF tick dt] have f3: "sent w3 = sent w2" .
        show ?thesis
        proof (cases d)
          case (Inl e)
          with tr dt show ?thesis by (simp add: transition_def)
        next
          case (Inr np)
          note d = this
          show ?thesis
          proof (cases "?dt \<le> now1")
            case True
            with tr dt d f1 f2 f3 show ?thesis by (simp add: transition_def)
          next
            case False
            obtain s now2 w4 where sb: "stabilize tick PROCESS_RUNNING pidfile old_pid cp ?dt None now1 w3 = (s, now2, w4)"
              by (cases "stabilize tick PROCESS_RUNNING pidfile old_pid cp ?dt None now1 w3")
            show ?thesis
            proof (cases s)
              case (Inl e)
              with tr dt d False sb show ?thesis by (simp add: transition_def)
            next
              case (Inr ob)
              show ?thesis
              proof (cases ob)
                case None
                with tr dt d False sb Inr show ?thesis
                  by (simp add: transition_def outcome_def split: prod.splits sum.splits)
              next
                case (Some b)
                from sb Inr Some have "stabilize tick PROCESS_RUNNING pidfile old_pid cp ?dt None now1 w3 = (Inr (Some b), now2, w4)"
                  by simp
                from stabilize_False_sent [OF tick this] have "sent w4 = sent w3" .
                with tr dt d False sb Inr Some f1 f2 f3 show ?thesis
                  by (simp add: transition_def)
              qed
            qed
          qed
        qed
      qed
    qed
  qed
qed

text \<open>
  C1. A start command that runs on and writes no pid file: after the 5 seconds the call
  returns False with the command process 300 running and no signal sent to it. And a
  stop command that runs on and ignores SIGTERM, with the old process gone: the cleanup
  is reached, SIGTERM is sent, and the wait of 3 seconds ends the call with
  \<^verbatim>\<open>TimeoutExpired\<close>; SIGKILL is not sent.
\<close>

theorem C1_timeout_returns_before_cleanup:
  "(case run_cmd_and_wait idle (Some ''run.sh'') ''/tmp/w.pid'' 5 PROCESS_RUNNING 0 example_world of
      (r, now, w) \<Rightarrow> (r, now, is_proc_running w (Some 300), sent w))
     = (Inr False, 10, Inr True, [])
   \<and> (case run_cmd_and_wait idle (Some ''stop.sh'') ''/tmp/w.pid'' 5 PROCESS_STOPPED 0 stale_world of
      (r, now, w) \<Rightarrow> (r, now, is_proc_running w (Some 300), sent w))
     = (Inl TimeoutExpired, 16, Inr True, [(300, SIGTERM)])"
  by code_simp

text \<open>
  C4. The restart of the specification's scenario: the first loop finds the new pid 200
  alive, the second loop looks up the old pid 100, which the restart has stopped, and
  the call returns False half a second after its start, with worker 200 running. And
  the flapping restart: worker 200 dies after a second, the old worker 100 runs on, and
  the call returns True at the deadline.
\<close>

theorem C4_stabilization_tracks_old_pid:
  "(case run_cmd_and_wait restart (Some ''reload.sh'') ''/tmp/w.pid'' 5 PROCESS_RUNNING 0 worker_world of
      (r, now, w) \<Rightarrow>
        (r, now, fst (read_pid w ''/tmp/w.pid''),
         is_proc_running w (Some 200), is_proc_running w (Some 100)))
     = (Inr False, 1, Inr 200, Inr True, Inr False)
   \<and> (case run_cmd_and_wait flap (Some ''reload.sh'') ''/tmp/w.pid'' 5 PROCESS_RUNNING 0 worker_world of
      (r, now, w) \<Rightarrow>
        (r, now, fst (read_pid w ''/tmp/w.pid''),
         is_proc_running w (Some 200), is_proc_running w (Some 100)))
     = (Inr True, 10, Inr 200, Inr False, Inr True)"
  by code_simp

text \<open>
  C7. A pid file that is missing when line 340 or line 144 reads it ends the supervisor
  with an uncaught FileNotFoundError while the worker 100 is running: in the watchdog of
  the first pass of the monitoring loop after a good start, and in the second loop of
  \<^verbatim>\<open>run_cmd_and_wait\<close> after the first loop has found the worker.
\<close>

theorem C7_missing_pid_file_raises:
  "(case run lifecycle (init_fields example_config) [Empty] 0 example_world of
      (r, now, w) \<Rightarrow> (r, now, file_exists w ''/tmp/w.pid'', is_proc_running w (Some 100)))
     = (Inl FileNotFoundError, 12, False, Inr True)
   \<and> (case run_cmd_and_wait torn (Some ''run.sh'') ''/tmp/w.pid'' 5 PROCESS_RUNNING 0 example_world of
      (r, now, w) \<Rightarrow> (r, now, file_exists w ''/tmp/w.pid'', is_proc_running w (Some 100)))
     = (Inl FileNotFoundError, 2, False, Inr True)"
  by code_simp

lemma stabilize_stopped_no_handle:
  "stabilize tick PROCESS_STOPPED pidfile old_pid None dttimeout pid now w =
     (if now < dttimeout then (Inl AttributeError, now, w) else (Inr None, now, w))"
  by (subst stabilize.simps) (simp add: stabilize_step_def is_proc_running_def)

text \<open>
  Without a command, a call that expects PROCESS_STOPPED never returns True: once the
  first loop has seen the process gone before the deadline, the second loop raises.
\<close>

lemma stopped_without_command_never_succeeds:
  "fst (run_cmd_and_wait tick None pidfile waittime PROCESS_STOPPED now w) \<noteq> Inr True"
proof -
  obtain r w1 where ro: "read_old_pid w pidfile = (r, w1)"
    by (cases "read_old_pid w pidfile")
  show ?thesis
  proof (cases r)
    case (Inl e)
    with ro show ?thesis by (simp add: run_cmd_and_wait_def)
  next
    case (Inr old_pid)
    show ?thesis
    proof (cases "deadline now waittime")
      case (Inl e)
      with ro Inr show ?thesis by (simp add: run_cmd_and_wait_def)
    next
      case (Inr dl)
      obtain d now1 w2 where dt:
        "detect tick PROCESS_STOPPED pidfile old_pid None dl None now w1 = (d, now1, w2)"
        by (cases "detect tick PROCESS_STOPPED pidfile old_pid None dl None now w1")
      show ?thesis
        using ro \<open>r = Inr old_pid\<close> Inr dt
        by (cases d)
          (simp_all add: run_cmd_and_wait_def launch_def transition_def stabilize_stopped_no_handle)
    qed
  qed
qed

text \<open>
  With a stop command that exits by itself, the same call returns True after half a
  second and sends no signal.
\<close>

lemma stopped_with_command_example:
  "(case run_cmd_and_wait stopping (Some ''stop.sh'') ''/tmp/w.pid'' 5 PROCESS_STOPPED 0 stale_world of
      (r, now, w) \<Rightarrow> (r, now, sent w))
     = (Inr True, 1, [])"
  by code_simp

text \<open>
  C8. Without a command, expecting PROCESS_STOPPED with a positive waiting time, when the
  pid file names a process that is gone at the first check: the first loop is left at
  once, and the first pass of the second loop calls \<^verbatim>\<open>is_proc_running\<close> on \<^verbatim>\<open>None\<close>.
  The call ends with AttributeError (with the OverflowError of line 91 when the waiting
  time is out of range); it does not return True.
\<close>

theorem C8_stopped_without_command_raises:
  assumes ex: "file_exists w pidfile"
    and rd: "read_pid w pidfile = (Inr pid, w1)"
    and nn: "0 \<le> pid"
    and gone: "pid \<notin> fst ` set (procs w)"
    and wt: "0 < waittime"
  shows "run_cmd_and_wait tick None pidfile waittime PROCESS_STOPPED now w
           = (case deadline now waittime of
                Inl e \<Rightarrow> (Inl e, now, w1)
              | Inr dttimeout \<Rightarrow> (Inl AttributeError, now, w1))"
proof (cases "deadline now waittime")
  case (Inl e)
  with ex rd show ?thesis
    by (simp add: run_cmd_and_wait_def read_old_pid_def)
next
  case (Inr dttimeout)
  then have dl: "dttimeout = now + 2 * waittime"
    by (simp add: deadline_def split: if_splits)
  from read_pid_frame [OF rd] have fr: "procs w1 = procs w"
    by simp
  have gp: "get_process w1 (Some pid) = Inr None"
    using nn gone fr by (simp add: get_process_def)
  have lt: "now < dttimeout"
    using wt dl by simp
  have d: "detect tick PROCESS_STOPPED pidfile (Some pid) None dttimeout None now w1
             = (Inr None, now, w1)"
    using lt gp by (subst detect.simps) (simp add: detect_step_def)
  have s: "stabilize tick PROCESS_STOPPED pidfile (Some pid) None dttimeout None now w1
             = (Inl AttributeError, now, w1)"
    using lt by (subst stabilize.simps) (simp add: stabilize_step_def is_proc_running_def)
  show ?thesis
    using ex rd lt Inr
    by (simp add: run_cmd_and_wait_def read_old_pid_def launch_def transition_def d s)
qed

theorem C8_stopped_without_command_raises_witness:
  "file_exists stale_world ''/tmp/w.pid''
     \<and> read_pid stale_world ''/tmp/w.pid'' = (Inr 100, stale_world)
     \<and> 100 \<notin> fst ` set (procs stale_world)
     \<and> run_cmd_and_wait idle None ''/tmp/w.pid'' 5 PROCESS_STOPPED 0 stale_world
         = (Inl AttributeError, 0, stale_world)"
proof -
  have h1: "file_exists stale_world ''/tmp/w.pid''"
    by code_simp
  have h2: "read_pid stale_world ''/tmp/w.pid'' = (Inr 100, stale_world)"
    by code_simp
  have h3: "(0::int) \<le> 100"
    by simp
  have h4: "100 \<notin> fst ` set (procs stale_world)"
    by code_simp
  have h5: "(0::int) < 5"
    by simp
  have h6: "deadline 0 5 = Inr 10"
    by (simp add: deadline_def timedelta_ok_def datetime_ok_def)
  show ?thesis
    using C8_stopped_without_command_raises [OF h1 h2 h3 h4 h5, of idle 0] h1 h2 h4 h6 by simp
qed

end
